theory Spec2Isabelle
  imports Complex_Main "HOL-Library.Monad_Syntax"
begin

section \<open>Numbers and errors\<close>

text \<open>
  The program computes with float64 numbers. A cell of a table or of a result array is a
  \<open>float64\<close>: the real number that a finite float64 value stands for, or \<open>None\<close> for a value
  that is not a finite number (\<open>nan\<close>, \<open>\<plusminus>inf\<close>, a missing cell of pandas).
\<close>

type_synonym float64 = "real option"

datatype error = KeyError string | ZeroDivisionError | ValueError string

text \<open>
  pandas' \<open>Series.div\<close> by a Python float: \<open>x / 0\<close> is \<open>nan\<close> or \<open>\<plusminus>inf\<close>, never an
  exception.
\<close>

definition true_divide :: "real \<Rightarrow> real \<Rightarrow> float64" where
  "true_divide x y = (if y = 0 then None else Some (x / y))"

text \<open>
  \<open>np.around(x, decimals)\<close> scales by \<open>10 ^ decimals\<close>, rounds to the nearest integer with
  ties going to the even one (\<open>rint\<close>), and scales back.
\<close>

definition rint :: "real \<Rightarrow> int" where
  "rint x = (let f = \<lfloor>x\<rfloor>; d = x - of_int f in
             if d < 1 / 2 then f else if 1 / 2 < d then f + 1
             else if even f then f else f + 1)"

definition around :: "real \<Rightarrow> nat \<Rightarrow> real" where
  "around x decimals = of_int (rint (x * 10 ^ decimals)) / 10 ^ decimals"

subsection \<open>IEEE 754 arithmetic\<close>

text \<open>
  Inside \<open>model_1d\<close> a value is a finite number, an infinity or \<open>nan\<close>. Zero has no sign
  here: the sign of a zero decides no result of the program.
\<close>

datatype ieee = Fin real | PInf | NInf | NaN

definition to_float64 :: "ieee \<Rightarrow> float64" where
  "to_float64 v = (case v of Fin x \<Rightarrow> Some x | _ \<Rightarrow> None)"

text \<open>
  An operation on finite operands delivers the exact result, rounded. \<open>fl64\<close> is the rounding
  of IEEE 754 binary64, to the nearest float64 number with ties going to the even
  significand: a number in the binade \<open>[2 ^ e, 2 ^ (e + 1))\<close> is rounded to a multiple of
  \<open>2 ^ (e - 52)\<close>, the subnormal numbers to a multiple of \<open>2 ^ (- 1074)\<close>, and a result
  that reaches \<open>2 ^ 1024\<close> is an infinity.
\<close>

definition fl64 :: "real \<Rightarrow> ieee" where
  "fl64 x =
     (if x = 0 then Fin 0
      else let e = max \<lfloor>log 2 \<bar>x\<bar>\<rfloor> (- 1022);
               q = 2 powr (of_int e - 52);
               y = of_int (rint (x / q)) * q
           in if 2 ^ 1024 \<le> \<bar>y\<bar> then (if 0 < x then PInf else NInf) else Fin y)"

text \<open>
  \<open>ranged\<close> keeps the exact result where \<open>fl64\<close> gives a nonzero finite number, and is \<open>fl64\<close>
  where the result leaves the range of float64: at and above \<open>2 ^ 1024 - 2 ^ 970\<close> the result
  is an infinity, at and below \<open>2 ^ (- 1075)\<close> it is zero. It stands for \<open>fl64\<close> in the
  operations on the arrays, whose rounding errors are not modelled.
\<close>

definition ranged :: "real \<Rightarrow> ieee" where
  "ranged x =
     (if 2 ^ 1024 - 2 ^ 970 \<le> \<bar>x\<bar> then (if 0 < x then PInf else NInf)
      else if \<bar>x\<bar> \<le> 1 / 2 ^ 1075 then Fin 0
      else Fin x)"

text \<open>
  The operations, for a rounding \<open>r\<close> of the results on finite operands; the other cases
  are the special values of IEEE 754.
\<close>

fun np_neg :: "ieee \<Rightarrow> ieee" where
  "np_neg (Fin a) = Fin (- a)"
| "np_neg PInf = NInf"
| "np_neg NInf = PInf"
| "np_neg NaN = NaN"

fun np_add :: "(real \<Rightarrow> ieee) \<Rightarrow> ieee \<Rightarrow> ieee \<Rightarrow> ieee" where
  "np_add r (Fin a) (Fin b) = r (a + b)"
| "np_add r NaN y = NaN"
| "np_add r x NaN = NaN"
| "np_add r PInf NInf = NaN"
| "np_add r NInf PInf = NaN"
| "np_add r PInf y = PInf"
| "np_add r x PInf = PInf"
| "np_add r NInf y = NInf"
| "np_add r x NInf = NInf"

fun np_mul :: "(real \<Rightarrow> ieee) \<Rightarrow> ieee \<Rightarrow> ieee \<Rightarrow> ieee" where
  "np_mul r (Fin a) (Fin b) = r (a * b)"
| "np_mul r NaN y = NaN"
| "np_mul r x NaN = NaN"
| "np_mul r (Fin a) PInf = (if a = 0 then NaN else if 0 < a then PInf else NInf)"
| "np_mul r (Fin a) NInf = (if a = 0 then NaN else if 0 < a then NInf else PInf)"
| "np_mul r PInf (Fin b) = (if b = 0 then NaN else if 0 < b then PInf else NInf)"
| "np_mul r NInf (Fin b) = (if b = 0 then NaN else if 0 < b then NInf else PInf)"
| "np_mul r PInf PInf = PInf"
| "np_mul r NInf NInf = PInf"
| "np_mul r PInf NInf = NInf"
| "np_mul r NInf PInf = NInf"

fun np_div :: "(real \<Rightarrow> ieee) \<Rightarrow> ieee \<Rightarrow> ieee \<Rightarrow> ieee" where
  "np_div r (Fin a) (Fin b) =
     (if b = 0 then (if a = 0 then NaN else if 0 < a then PInf else NInf) else r (a / b))"
| "np_div r NaN y = NaN"
| "np_div r x NaN = NaN"
| "np_div r (Fin a) y = Fin 0"
| "np_div r PInf (Fin b) = (if 0 \<le> b then PInf else NInf)"
| "np_div r NInf (Fin b) = (if 0 \<le> b then NInf else PInf)"
| "np_div r x y = NaN"

fun np_exp :: "(real \<Rightarrow> ieee) \<Rightarrow> ieee \<Rightarrow> ieee" where
  "np_exp r (Fin a) = r (exp a)"
| "np_exp r PInf = PInf"
| "np_exp r NInf = Fin 0"
| "np_exp r NaN = NaN"

fun np_sqrt :: "(real \<Rightarrow> ieee) \<Rightarrow> ieee \<Rightarrow> ieee" where
  "np_sqrt r (Fin a) = (if a < 0 then NaN else r (sqrt a))"
| "np_sqrt r PInf = PInf"
| "np_sqrt r x = NaN"

fun np_rint :: "ieee \<Rightarrow> ieee" where
  "np_rint (Fin a) = Fin (of_int (rint a))"
| "np_rint x = x"

text \<open>
  \<open>//\<close> on float64 scalars: the floor of the quotient of the two operands; a zero divisor
  gives what the division gives, an infinite dividend gives \<open>nan\<close>, and an infinite divisor
  gives 0, or \<open>-1\<close> when the signs differ.
\<close>

fun np_floor_divide :: "(real \<Rightarrow> ieee) \<Rightarrow> ieee \<Rightarrow> ieee \<Rightarrow> ieee" where
  "np_floor_divide r (Fin a) (Fin b) =
     (if b = 0 then np_div r (Fin a) (Fin b) else r (of_int \<lfloor>a / b\<rfloor>))"
| "np_floor_divide r (Fin a) PInf = (if a < 0 then Fin (- 1) else Fin 0)"
| "np_floor_divide r (Fin a) NInf = (if 0 < a then Fin (- 1) else Fin 0)"
| "np_floor_divide r x y = NaN"

text \<open>\<open>np.sum\<close> and the sums inside \<open>np.convolve\<close>.\<close>

definition np_sum :: "ieee list \<Rightarrow> ieee" where
  "np_sum xs = foldl (np_add ranged) (Fin 0) xs"

text \<open>\<open>np.around(x, 9)\<close> on a float64 scalar, every step rounded.\<close>

definition np_around9 :: "ieee \<Rightarrow> ieee" where
  "np_around9 x = np_div fl64 (np_rint (np_mul fl64 x (Fin (10 ^ 9)))) (Fin (10 ^ 9))"

section \<open>Signal preparation: \<open>get_incident_data\<close>\<close>

text \<open>
  The rows are what \<open>pd.read_csv(..., dtype=float)\<close> delivers: a Time cell and an Incident
  cell, \<open>None\<close> for a missing cell (pandas' NaN). Reading the file, with the check of its
  suffix, comes before and is not modelled. Time becomes the index, so \<open>dropna\<close> looks at
  the Incident column only.
\<close>

fun dropna :: "(float64 \<times> float64) list \<Rightarrow> (float64 \<times> real) list" where
  "dropna [] = []"
| "dropna ((t, None) # rows) = dropna rows"
| "dropna ((t, Some a) # rows) = (t, a) # dropna rows"

text \<open>Python's builtin \<open>max\<close> on a list: it raises on the empty list.\<close>

fun py_max :: "real list \<Rightarrow> error + real" where
  "py_max [] = Inl (ValueError ''max() arg is an empty sequence'')"
| "py_max (x # xs) = Inr (fold (\<lambda>y m. if m < y then y else m) xs x)"

definition get_incident_data :: "(float64 \<times> float64) list \<Rightarrow> error + (float64 \<times> float64) list" where
  "get_incident_data rows =
     (let df = dropna rows in
      case py_max (map (\<lambda>(t, a). \<bar>a\<bar>) df) of
        Inl e \<Rightarrow> Inl e
      | Inr max_signal \<Rightarrow> Inr (map (\<lambda>(t, a). (t, true_divide a max_signal)) df))"

section \<open>The wave-splitting model: \<open>model_1d\<close>\<close>

text \<open>
  The scalars of the model (wave speed, characteristic time, sample interval, delay) are
  computed with \<open>fl64\<close>, as float64 computes them. The operations on the arrays (kernel,
  convolution, sums, transmitted and reflected wave) keep exact values inside the range of
  float64: their rounding errors are not modelled, their overflow and underflow are. The
  differences and the median of the times and the output time axis are computed exactly.
\<close>

type_synonym parameters = "string \<rightharpoonup> (string \<rightharpoonup> real)"

definition getitem :: "(string \<rightharpoonup> 'v) \<Rightarrow> string \<Rightarrow> error + 'v" where
  "getitem d k = (case d k of None \<Rightarrow> Inl (KeyError k) | Some v \<Rightarrow> Inr v)"

text \<open>\<open>np.diff\<close> and \<open>np.median\<close>; the median of an empty array is \<open>nan\<close>.\<close>

fun diff :: "real list \<Rightarrow> real list" where
  "diff (x # y # zs) = (y - x) # diff (y # zs)"
| "diff zs = []"

definition median :: "real list \<Rightarrow> float64" where
  "median xs =
     (if xs = [] then None
      else let s = sort xs; n = length s in
           Some (if odd n then s ! (n div 2) else (s ! (n div 2 - 1) + s ! (n div 2)) / 2))"

text \<open>
  \<open>dt = np.around(np.median(np.diff(time)), 9)\<close>: the median enters as the float64 number
  nearest to it.
\<close>

definition sample_interval :: "real list \<Rightarrow> ieee" where
  "sample_interval time =
     (case median (diff time) of None \<Rightarrow> NaN | Some m \<Rightarrow> np_around9 (fl64 m))"

text \<open>\<open>incident[np.where(incident > 0.0)] = 0\<close>\<close>

definition clamp_positive :: "real list \<Rightarrow> real list" where
  "clamp_positive incident = map (\<lambda>x. if 0 < x then 0 else x) incident"

text \<open>
  \<open>np.convolve(a, v)\<close> in its default mode \<open>full\<close>: the linear convolution, of length
  \<open>len(a) + len(v) - 1\<close>; sample \<open>n\<close> is the sum of the products \<open>a[m] * v[n - m]\<close> over the
  indices that exist. It raises on an empty argument.
\<close>

definition conv_terms :: "ieee list \<Rightarrow> ieee list \<Rightarrow> nat \<Rightarrow> ieee list" where
  "conv_terms a v n =
     map (\<lambda>m. np_mul ranged (a ! m) (v ! (n - m)))
       (filter (\<lambda>m. m \<le> n \<and> n - m < length v) [0..<length a])"

definition convolve :: "ieee list \<Rightarrow> ieee list \<Rightarrow> error + ieee list" where
  "convolve a v =
     (if a = [] then Inl (ValueError ''a cannot be empty'')
      else if v = [] then Inl (ValueError ''v cannot be empty'')
      else Inr (map (\<lambda>n. np_sum (conv_terms a v n)) [0..<length a + length v - 1]))"

text \<open>
  The delay:
  \<open>delay = np.around((2 * gage_distance + junction_length) / c, decimals=9)\<close>, then
  \<open>delay = ((delay * 1e9) // (dt * 1e9)) * dt\<close>.
\<close>

definition propagation_delay :: "real \<Rightarrow> real \<Rightarrow> ieee \<Rightarrow> ieee \<Rightarrow> ieee" where
  "propagation_delay gage_distance junction_length c dt =
     (if gage_distance = 0 then Fin 0
      else let delay = np_around9
                 (np_div fl64 (np_add fl64 (fl64 (2 * gage_distance)) (Fin junction_length)) c)
           in np_mul fl64
                (np_floor_divide fl64 (np_mul fl64 delay (Fin (10 ^ 9)))
                   (np_mul fl64 dt (Fin (10 ^ 9))))
                dt)"

text \<open>\<open>kernel = np.exp(-time / t_ch) / t_ch\<close>\<close>

definition kernel_of :: "real list \<Rightarrow> ieee \<Rightarrow> ieee list" where
  "kernel_of time t_ch =
     map (\<lambda>t. np_div ranged (np_exp ranged (np_div ranged (Fin (- t)) t_ch)) t_ch) time"

text \<open>
  \<open>transmitted = -1 * np.convolve(kernel, incident) / np.sum(kernel)\<close>, cut to
  \<open>transmitted[: len(incident)]\<close>.
\<close>

definition transmitted_of :: "real list \<Rightarrow> real list \<Rightarrow> ieee \<Rightarrow> error + ieee list" where
  "transmitted_of time incident t_ch =
     (let kernel = kernel_of time t_ch in
      case convolve kernel (map Fin incident) of
        Inl e \<Rightarrow> Inl e
      | Inr full \<Rightarrow>
          Inr (take (length incident)
                 (map (\<lambda>x. np_div ranged (np_mul ranged (Fin (- 1)) x) (np_sum kernel)) full)))"

text \<open>\<open>reflected = -(incident + transmitted)\<close>, sample by sample.\<close>

definition reflected_of :: "real list \<Rightarrow> ieee list \<Rightarrow> ieee list" where
  "reflected_of incident transmitted =
     map2 (\<lambda>i t. np_neg (np_add ranged (Fin i) t)) incident transmitted"

text \<open>\<open>time_output = np.around(time + delay, decimals=9)\<close>\<close>

definition time_output_of :: "real list \<Rightarrow> float64 \<Rightarrow> float64 list" where
  "time_output_of time delay = map (\<lambda>t. map_option (\<lambda>d. around (t + d) 9) delay) time"

text \<open>
  The result holds the arrays of the model: the sign-corrected incident, the sample interval
  and the delay, and the columns and the index of \<open>df_output\<close>. (The outer merge that
  keys these columns by time next to the Incident column of the input is not part of the
  model.)
\<close>

record split_waves =
  incident :: "real list"
  dt :: float64
  delay :: float64
  transmitted :: "float64 list"
  reflected :: "float64 list"
  time_output :: "float64 list"

text \<open>
  \<open>df_incident\<close> is a table of finite numbers: the Time index and the Incident column.
  The parameters are the nested dictionary that \<open>toml.load\<close> returns; a missing key raises
  \<open>KeyError\<close>, except for \<open>gage_distance\<close>; \<open>elastic_modulus / density\<close> divides two Python
  numbers, which raises on a zero density.
\<close>

definition model_1d :: "(real \<times> real) list \<Rightarrow> parameters \<Rightarrow> error + split_waves" where
  "model_1d df_incident experimental_parameters =
     (case getitem experimental_parameters ''material_properties'' of
        Inl e \<Rightarrow> Inl e
      | Inr material_properties \<Rightarrow>
     (case getitem material_properties ''elastic_modulus'' of
        Inl e \<Rightarrow> Inl e
      | Inr elastic_modulus \<Rightarrow>
     (case getitem material_properties ''density'' of
        Inl e \<Rightarrow> Inl e
      | Inr density \<Rightarrow>
     (if density = 0 then Inl ZeroDivisionError
      else let c = np_sqrt fl64 (fl64 (elastic_modulus / density)) in
     (case getitem experimental_parameters ''geometric_parameters'' of
        Inl e \<Rightarrow> Inl e
      | Inr geometric_parameters \<Rightarrow>
     (case getitem geometric_parameters ''junction_length'' of
        Inl e \<Rightarrow> Inl e
      | Inr junction_length \<Rightarrow>
     (let t_ch = np_div fl64 (Fin junction_length) c;
          gage_distance = (case getitem geometric_parameters ''gage_distance'' of
                             Inl e \<Rightarrow> 0 | Inr g \<Rightarrow> g);
          time = map fst df_incident;
          dt = sample_interval time;
          incident = clamp_positive (map snd df_incident);
          delay = propagation_delay gage_distance junction_length c dt
      in case transmitted_of time incident t_ch of
           Inl e \<Rightarrow> Inl e
         | Inr tr \<Rightarrow>
             Inr \<lparr>incident = incident, dt = to_float64 dt, delay = to_float64 delay,
                  transmitted = map to_float64 tr,
                  reflected = map to_float64 (reflected_of incident tr),
                  time_output = time_output_of time (to_float64 delay)\<rparr>)))))))"

section \<open>Vocabulary of the properties\<close>

text \<open>
  The parameters are valid when the three required entries are present and positive and the
  optional gage distance, when present, is not negative.
\<close>

definition valid_parameters :: "parameters \<Rightarrow> bool" where
  "valid_parameters p =
     (case (p ''material_properties'', p ''geometric_parameters'') of
        (Some mp, Some gp) \<Rightarrow>
          (case (mp ''elastic_modulus'', mp ''density'', gp ''junction_length'') of
             (Some E, Some rho, Some L) \<Rightarrow>
               0 < E \<and> 0 < rho \<and> 0 < L \<and>
               (case gp ''gage_distance'' of None \<Rightarrow> True | Some g \<Rightarrow> 0 \<le> g)
           | _ \<Rightarrow> False)
      | _ \<Rightarrow> False)"

text \<open>The gage distance that \<open>model_1d\<close> works with: the entry, or \<open>0.0\<close> when it is absent.\<close>

definition gage_or_default :: "(string \<rightharpoonup> real) \<Rightarrow> real" where
  "gage_or_default gp = (case gp ''gage_distance'' of None \<Rightarrow> 0 | Some g \<Rightarrow> g)"

text \<open>The nested dictionary of a parameter file with the given entries.\<close>

definition parameters_of :: "real \<Rightarrow> real \<Rightarrow> real \<Rightarrow> real option \<Rightarrow> parameters" where
  "parameters_of E rho L g =
     [''material_properties'' \<mapsto> [''elastic_modulus'' \<mapsto> E, ''density'' \<mapsto> rho],
      ''geometric_parameters'' \<mapsto>
        (case g of None \<Rightarrow> [''junction_length'' \<mapsto> L]
         | Some gv \<Rightarrow> [''junction_length'' \<mapsto> L, ''gage_distance'' \<mapsto> gv])]"

text \<open>
  The three required entries \<open>(elastic_modulus, density, junction_length)\<close>, when all of them
  are present.
\<close>

definition required_entries :: "parameters \<Rightarrow> (real \<times> real \<times> real) option" where
  "required_entries p = do {
     mp \<leftarrow> p ''material_properties'';
     E \<leftarrow> mp ''elastic_modulus'';
     rho \<leftarrow> mp ''density'';
     gp \<leftarrow> p ''geometric_parameters'';
     L \<leftarrow> gp ''junction_length'';
     Some (E, rho, L)
   }"

text \<open>The gage distance of a parameter set, \<open>0\<close> when it is absent.\<close>

definition gage_distance_of :: "parameters \<Rightarrow> real" where
  "gage_distance_of p = (case p ''geometric_parameters'' of None \<Rightarrow> 0 | Some gp \<Rightarrow> gage_or_default gp)"

text \<open>The wave speed \<open>c\<close> and the characteristic time \<open>t_ch\<close> that \<open>model_1d\<close> computes.\<close>

definition wave_speed :: "real \<Rightarrow> real \<Rightarrow> ieee" where
  "wave_speed E rho = np_sqrt fl64 (fl64 (E / rho))"

definition char_time :: "real \<Rightarrow> real \<Rightarrow> real \<Rightarrow> ieee" where
  "char_time E rho L = np_div fl64 (Fin L) (wave_speed E rho)"

text \<open>The float64 number that a decimal number of an input file is read as.\<close>

definition float_of :: "real \<Rightarrow> real" where
  "float_of x = (case fl64 x of Fin y \<Rightarrow> y | _ \<Rightarrow> 0)"

text \<open>
  Scenario A: 1000 samples of a constant incident \<open>-1.0\<close>, one every microsecond from time 0,
  for a bar with \<open>elastic_modulus = 70e9\<close>, \<open>density = 2700\<close>, \<open>junction_length = 0.5\<close> and
  \<open>gage_distance = 0\<close>.
\<close>

definition scenario_A_incident :: "(real \<times> real) list" where
  "scenario_A_incident = map (\<lambda>i. (real i / 10 ^ 6, - 1)) [0..<1000]"

definition scenario_A_parameters :: parameters where
  "scenario_A_parameters = parameters_of (70 * 10 ^ 9) 2700 (1 / 2) (Some 0)"

text \<open>The same record with a time axis that starts at 1 s.\<close>

definition late_scenario_A_incident :: "(real \<times> real) list" where
  "late_scenario_A_incident = map (\<lambda>i. (1 + real i / 10 ^ 6, - 1)) [0..<1000]"

text \<open>
  A record of three samples at 0, 1 and 2 microseconds for a bar with
  \<open>elastic_modulus = 67.5e9\<close>, \<open>density = 2700\<close>, \<open>junction_length = 0.5\<close> and
  \<open>gage_distance = 0.4\<close>: the wave speed is 5000 m/s and the travel time
  \<open>(2 * 0.4 + 0.5) / 5000\<close> is 260 microseconds.
\<close>

definition quantization_series :: "(real \<times> real) list" where
  "quantization_series =
     [(0, - 1), (float_of (1 / 10 ^ 6), - 1), (float_of (2 / 10 ^ 6), - 1)]"

definition quantization_parameters :: parameters where
  "quantization_parameters = parameters_of 67500000000 2700 (1 / 2) (Some (float_of (4 / 10)))"

section \<open>Lemmas on signal preparation\<close>

lemma py_max_Cons: "py_max (x # xs) = Inr (Max (set (x # xs)))"
proof -
  have "(\<lambda>(y::real) m. if m < y then y else m) = max"
    by (intro ext) (simp add: max_def)
  then show ?thesis by (simp only: py_max.simps Max.set_eq_fold)
qed

lemma py_max_Max: "xs \<noteq> [] \<Longrightarrow> py_max xs = Inr (Max (set xs))"
  by (cases xs) (simp, simp only: py_max_Cons)

lemma dropna_mem: "(t, a) \<in> set (dropna rows) \<longleftrightarrow> (t, Some a) \<in> set rows"
  by (induction rows rule: dropna.induct) auto

section \<open>Lemmas on rounding\<close>

lemma rint_upper: "of_int (rint x) \<le> x + 1 / 2"
  unfolding rint_def Let_def by auto linarith+

lemma rint_lower: "x - 1 / 2 \<le> of_int (rint x)"
  unfolding rint_def Let_def by auto linarith+


lemma ranged_0: "ranged 0 = Fin 0"
  by (simp add: ranged_def)

lemma ranged_tiny: "\<bar>x\<bar> \<le> 1 / 2 ^ 1075 \<Longrightarrow> ranged x = Fin 0"
  by (simp add: ranged_def)

lemma ranged_id: "1 / 2 ^ 1000 \<le> \<bar>x\<bar> \<Longrightarrow> \<bar>x\<bar> \<le> 2 ^ 1000 \<Longrightarrow> ranged x = Fin x"
  by (simp add: ranged_def)

lemma rint_near: "\<bar>of_int (rint z) - z\<bar> \<le> 1 / 2"
  using rint_upper[of z] rint_lower[of z] by linarith

lemma fl64_binade:
  assumes "0 < x" and lo: "2 powr of_int k \<le> x" and hi: "x < 2 powr (of_int k + 1)"
    and "- 1022 \<le> k" and "k \<le> 1022"
  shows "fl64 x = Fin (of_int (rint (x / 2 powr (of_int k - 52))) * 2 powr (of_int k - 52))"
    and "\<bar>of_int (rint (x / 2 powr (of_int k - 52))) * 2 powr (of_int k - 52) - x\<bar> \<le> x / 2 ^ 53"
proof -
  let ?q = "2 powr (of_int k - 52) :: real"
  let ?y = "of_int (rint (x / ?q)) * ?q"
  have fk: "\<lfloor>log 2 \<bar>x\<bar>\<rfloor> = k"
    using assms(1) lo hi by (simp add: floor_log_eq_powr_iff)
  have e: "max \<lfloor>log 2 \<bar>x\<bar>\<rfloor> (- 1022) = k" using fk assms(4) by simp
  have q: "0 < ?q" by simp
  have qk: "?q = 2 powr of_int k / 2 ^ 52" by (simp add: powr_diff)
  have qx: "?q \<le> x / 2 ^ 52" unfolding qk using lo by (simp add: divide_right_mono)
  have "\<bar>?y - x\<bar> = \<bar>of_int (rint (x / ?q)) - x / ?q\<bar> * ?q"
  proof -
    have "?y - x = (of_int (rint (x / ?q)) - x / ?q) * ?q" using q by (simp add: field_simps)
    then show ?thesis using q by (simp add: abs_mult)
  qed
  also have "\<dots> \<le> 1 / 2 * ?q" using rint_near[of "x / ?q"] q by (intro mult_right_mono) simp_all
  also have "\<dots> \<le> 1 / 2 * (x / 2 ^ 52)" using qx by simp
  also have "\<dots> = x / 2 ^ 53" by simp
  finally show near: "\<bar>?y - x\<bar> \<le> x / 2 ^ 53" .
  have "x < 2 powr 1023"
  proof -
    have "2 powr (of_int k + 1) \<le> (2::real) powr 1023"
      by (rule powr_mono) (use assms(5) in simp_all)
    with hi show ?thesis by linarith
  qed
  then have x1023: "x < 2 ^ 1023" by simp
  have "\<bar>?y\<bar> \<le> x + x / 2 ^ 53" using near assms(1) by linarith
  also have "\<dots> \<le> 2 * x" using assms(1) by (simp add: field_simps)
  also have "\<dots> < 2 ^ 1024" using x1023 by simp
  finally have "\<not> 2 ^ 1024 \<le> \<bar>?y\<bar>" by simp
  then show "fl64 x = Fin ?y"
    using assms(1) unfolding fl64_def e Let_def by simp
qed

lemma fl64_bounds:
  assumes "1 / 2 ^ 1022 \<le> x" and "x < 2 ^ 1023"
  shows "\<exists>y. fl64 x = Fin y \<and> x / 2 \<le> y \<and> y \<le> 2 * x"
proof -
  have x0: "0 < x" using assms(1) by (rule less_le_trans[rotated]) simp
  define k where "k = \<lfloor>log 2 x\<rfloor>"
  have kb: "2 powr of_int k \<le> x" "x < 2 powr (of_int k + 1)"
    using floor_log_eq_powr_iff[of x 2 k] x0 by (simp_all add: k_def)
  have "(2::real) powr (- 1022) \<le> x" using assms(1) by (simp add: powr_minus field_simps)
  with kb(2) have "(2::real) powr (- 1022) < 2 powr (of_int k + 1)" by linarith
  then have k1: "- 1022 \<le> k" by simp
  have "(2::real) powr of_int k < 2 powr of_int 1023" using kb(1) assms(2) by simp
  then have "real_of_int k < real_of_int 1023" by (subst (asm) powr_less_cancel_iff) simp_all
  then have k2: "k \<le> 1022" by linarith
  note b = fl64_binade[OF x0 kb k1 k2]
  let ?y = "of_int (rint (x / 2 powr (of_int k - 52))) * 2 powr (of_int k - 52)"
  have "x / 2 ^ 53 \<le> x / 2" using x0 by (simp add: field_simps)
  with b(2) have "x / 2 \<le> ?y" "?y \<le> 2 * x" using x0 by linarith+
  with b(1) show ?thesis by blast
qed

lemma fl64_ge1:
  assumes "2 ^ n \<le> x" and "x < 2 * 2 ^ n" and "n \<le> 1022"
  shows "fl64 x = Fin (of_int (rint (x * 2 ^ 52 / 2 ^ n)) * 2 ^ n / 2 ^ 52)"
proof -
  have x0: "0 < x" using assms(1) by (rule less_le_trans[rotated]) simp
  have p: "(2::real) powr of_int (int n) = 2 ^ n" by (simp add: powr_realpow)
  have q: "(2::real) powr (of_int (int n) - 52) = 2 ^ n / 2 ^ 52" by (simp add: powr_diff powr_realpow)
  have "fl64 x = Fin (of_int (rint (x / 2 powr (of_int (int n) - 52))) * 2 powr (of_int (int n) - 52))"
    using assms by (intro fl64_binade(1)[OF x0]) (simp_all add: powr_add powr_realpow)
  then show ?thesis unfolding q by (simp add: field_simps)
qed

lemma fl64_lt1:
  assumes "1 \<le> x * 2 ^ n" and "x * 2 ^ n < 2" and "n \<le> 1022"
  shows "fl64 x = Fin (of_int (rint (x * 2 ^ 52 * 2 ^ n)) / (2 ^ 52 * 2 ^ n))"
proof -
  have "0 < x * 2 ^ n" using assms(1) by linarith
  then have x0: "0 < x" by (simp add: zero_less_mult_iff)
  have p: "(2::real) powr of_int (- int n) = 1 / 2 ^ n" by (simp add: powr_minus powr_realpow field_simps)
  have q: "(2::real) powr (of_int (- int n) - 52) = 1 / (2 ^ n * 2 ^ 52)"
    by (simp add: powr_diff powr_minus powr_realpow field_simps)
  have "fl64 x = Fin (of_int (rint (x / 2 powr (of_int (- int n) - 52))) * 2 powr (of_int (- int n) - 52))"
  proof (rule fl64_binade(1)[OF x0])
    show "2 powr real_of_int (- int n) \<le> x" unfolding p using assms(1) by (simp add: field_simps)
    show "x < 2 powr (real_of_int (- int n) + 1)"
      using assms(2) by (simp add: powr_add p field_simps del: of_int_minus)
    show "- 1022 \<le> - int n" "- int n \<le> 1022" using assms(3) by simp_all
  qed
  then show ?thesis unfolding q by (simp add: field_simps)
qed

lemma ranged_id0:
  "x = 0 \<or> (1 / 2 ^ 1000 \<le> \<bar>x\<bar> \<and> \<bar>x\<bar> \<le> 2 ^ 1000) \<Longrightarrow> ranged x = Fin x"
  using ranged_0 ranged_id by blast

lemma exp_nat_lower: "- real n \<le> a \<Longrightarrow> 1 / 3 ^ n \<le> exp a"
proof -
  assume a: "- real n \<le> a"
  have "exp (real n) = exp 1 ^ n" using exp_of_nat_mult[of n "1::real"] by simp
  also have "\<dots> \<le> 3 ^ n" by (intro power_mono exp_le) simp
  finally have "1 / 3 ^ n \<le> 1 / exp (real n)" by (simp add: field_simps)
  also have "\<dots> = exp (- real n)" by (simp add: exp_minus field_simps)
  also have "\<dots> \<le> exp a" using a by simp
  finally show ?thesis .
qed

lemma exp_nat_upper: "a \<le> - real n \<Longrightarrow> exp a \<le> 1 / 2 ^ n"
proof -
  assume a: "a \<le> - real n"
  have "(2::real) \<le> exp 1" using exp_ge_add_one_self[of 1] by simp
  then have "(2::real) ^ n \<le> exp 1 ^ n" by (intro power_mono) simp_all
  also have "\<dots> = exp (real n)" using exp_of_nat_mult[of n "1::real"] by simp
  finally have "1 / exp (real n) \<le> 1 / 2 ^ n" by (simp add: field_simps)
  moreover have "exp a \<le> exp (- real n)" using a by simp
  moreover have "exp (- real n) = 1 / exp (real n)" by (simp add: exp_minus field_simps)
  ultimately show ?thesis by linarith
qed

lemma filter_conv_index:
  assumes "n < N"
  shows "filter (\<lambda>m. m \<le> n \<and> n - m < N) [0..<N] = [0..<Suc n]"
proof -
  have "[0..<Suc n + (N - Suc n)] = [0..<Suc n] @ [Suc n..<Suc n + (N - Suc n)]"
    by (rule upt_add_eq_append) simp
  moreover have "Suc n + (N - Suc n) = N" using assms by simp
  ultimately have a: "[0..<N] = [0..<Suc n] @ [Suc n..<N]" by (simp only:)
  have b: "filter (\<lambda>m. m \<le> n \<and> n - m < N) [0..<Suc n] = [0..<Suc n]"
    using assms by (intro filter_True) (auto simp del: upt_Suc)
  have c: "filter (\<lambda>m. m \<le> n \<and> n - m < N) [Suc n..<N] = []"
    by (intro filter_False) auto
  show ?thesis by (simp only: a filter_append b c append_Nil2)
qed

lemma foldl_np_add_Fin:
  assumes "s = 1 \<or> s = - 1" and "\<forall>x\<in>set xs. lo \<le> s * x" and "acc = 0 \<or> lo \<le> s * acc"
    and "s * (acc + sum_list xs) \<le> 2 ^ 1000" and "1 / 2 ^ 1000 \<le> lo"
  shows "foldl (np_add ranged) (Fin acc) (map Fin xs) = Fin (acc + sum_list xs)"
  using assms(2,3,4)
proof (induction xs arbitrary: acc)
  case Nil
  then show ?case by simp
next
  case (Cons x xs)
  have lo: "0 < lo" using assms(5) by (rule less_le_trans[rotated]) simp
  have sx: "lo \<le> s * x" using Cons.prems(1) by simp
  have sacc: "0 \<le> s * acc" using Cons.prems(2) lo by auto
  have rest: "0 \<le> s * sum_list xs"
  proof -
    have "0 \<le> sum_list (map (\<lambda>y. s * y) xs)"
      using Cons.prems(1) lo by (intro sum_list_nonneg) (auto intro: less_imp_le order_trans)
    then show ?thesis by (simp add: sum_list_const_mult)
  qed
  have ge: "lo \<le> s * (acc + x)" using sx sacc by (simp add: algebra_simps)
  have le: "s * (acc + x) \<le> 2 ^ 1000"
    using Cons.prems(3) rest by (simp add: algebra_simps)
  have ab: "\<bar>acc + x\<bar> = s * (acc + x)" using assms(1) ge lo by auto
  have "ranged (acc + x) = Fin (acc + x)"
    using ge le assms(5) unfolding ab[symmetric] by (intro ranged_id) linarith+
  moreover have "foldl (np_add ranged) (Fin (acc + x)) (map Fin xs) = Fin (acc + x + sum_list xs)"
    using Cons.prems ge by (intro Cons.IH) (simp_all add: algebra_simps)
  ultimately show ?case by (simp add: algebra_simps)
qed

lemma np_sum_Fin:
  assumes "s = 1 \<or> s = - 1" and "\<forall>x\<in>set xs. lo \<le> s * x"
    and "s * sum_list xs \<le> 2 ^ 1000" and "1 / 2 ^ 1000 \<le> lo"
  shows "np_sum (map Fin xs) = Fin (sum_list xs)"
  unfolding np_sum_def using foldl_np_add_Fin[OF assms(1,2) _ _ assms(4), of 0] assms(3) by simp

section \<open>Lemmas on the model\<close>

lemma valid_parametersE:
  assumes "valid_parameters p"
  obtains mp gp E rho L where
    "p ''material_properties'' = Some mp" "p ''geometric_parameters'' = Some gp"
    "mp ''elastic_modulus'' = Some E" "mp ''density'' = Some rho"
    "gp ''junction_length'' = Some L" "0 < E" "0 < rho" "0 < L" "0 \<le> gage_or_default gp"
  using assms unfolding valid_parameters_def gage_or_default_def
  by (auto split: option.splits)

lemma model_1d_present:
  assumes "p ''material_properties'' = Some mp" "p ''geometric_parameters'' = Some gp"
    "mp ''elastic_modulus'' = Some E" "mp ''density'' = Some rho"
    "gp ''junction_length'' = Some L" "rho \<noteq> 0"
  shows "model_1d df p =
     (case transmitted_of (map fst df) (clamp_positive (map snd df)) (char_time E rho L) of
        Inl e \<Rightarrow> Inl e
      | Inr tr \<Rightarrow>
          Inr \<lparr>incident = clamp_positive (map snd df),
               dt = to_float64 (sample_interval (map fst df)),
               delay = to_float64 (propagation_delay (gage_or_default gp) L (wave_speed E rho)
                         (sample_interval (map fst df))),
               transmitted = map to_float64 tr,
               reflected = map to_float64 (reflected_of (clamp_positive (map snd df)) tr),
               time_output = time_output_of (map fst df)
                 (to_float64 (propagation_delay (gage_or_default gp) L (wave_speed E rho)
                    (sample_interval (map fst df))))\<rparr>)"
  using assms
  by (cases "gp ''gage_distance''")
     (simp_all add: model_1d_def getitem_def gage_or_default_def char_time_def wave_speed_def
        Let_def cong: sum.case_cong)

lemma length_clamp_positive: "length (clamp_positive xs) = length xs"
  by (simp add: clamp_positive_def)

lemma clamp_positive_nth:
  "i < length xs \<Longrightarrow> clamp_positive xs ! i = (if 0 < xs ! i then 0 else xs ! i)"
  by (simp add: clamp_positive_def)

lemma length_kernel_of: "length (kernel_of time t) = length time"
  by (simp add: kernel_of_def)

lemma convolve_full:
  assumes "a \<noteq> []" "v \<noteq> []"
  shows "\<exists>full. convolve a v = Inr full \<and> length full = length a + length v - 1"
  using assms by (simp add: convolve_def)

lemma transmitted_of_convolve:
  assumes "convolve (kernel_of time t) (map Fin inc) = Inr full"
  shows "transmitted_of time inc t =
         Inr (take (length inc)
                (map (\<lambda>x. np_div ranged (np_mul ranged (Fin (- 1)) x) (np_sum (kernel_of time t)))
                   full))"
  using assms by (simp add: transmitted_of_def Let_def)

lemma transmitted_of_returns:
  assumes "time \<noteq> []" "length inc = length time"
  shows "\<exists>tr. transmitted_of time inc t = Inr tr \<and> length tr = length time"
proof -
  have ne: "kernel_of time t \<noteq> []" "map Fin inc \<noteq> []"
    using assms by (auto simp: kernel_of_def)
  from convolve_full[OF ne] obtain full where full: "convolve (kernel_of time t) (map Fin inc) = Inr full"
    and lf: "length full = length (kernel_of time t) + length (map Fin inc) - 1" by blast
  have "length time \<le> length full" using lf assms by (simp add: length_kernel_of)
  then show ?thesis using transmitted_of_convolve[OF full] assms(2) by simp
qed

lemma required_entriesD:
  assumes "required_entries p = Some (E, rho, L)"
  obtains mp gp where
    "p ''material_properties'' = Some mp" "p ''geometric_parameters'' = Some gp"
    "mp ''elastic_modulus'' = Some E" "mp ''density'' = Some rho"
    "gp ''junction_length'' = Some L"
  using assms unfolding required_entries_def
  by (auto split: Option.bind_splits)

lemma model_1d_result:
  assumes "required_entries p = Some (E, rho, L)" "rho \<noteq> 0" "df \<noteq> []"
  shows "\<exists>out tr. model_1d df p = Inr out \<and>
           transmitted_of (map fst df) (clamp_positive (map snd df)) (char_time E rho L) = Inr tr \<and>
           length tr = length df \<and>
           incident out = clamp_positive (map snd df) \<and>
           dt out = to_float64 (sample_interval (map fst df)) \<and>
           delay out = to_float64 (propagation_delay (gage_distance_of p) L (wave_speed E rho)
                         (sample_interval (map fst df))) \<and>
           transmitted out = map to_float64 tr \<and>
           reflected out = map to_float64 (reflected_of (clamp_positive (map snd df)) tr) \<and>
           time_output out = time_output_of (map fst df) (delay out)"
proof -
  from assms(1) obtain mp gp where h:
    "p ''material_properties'' = Some mp" "p ''geometric_parameters'' = Some gp"
    "mp ''elastic_modulus'' = Some E" "mp ''density'' = Some rho"
    "gp ''junction_length'' = Some L" by (rule required_entriesD)
  have g: "gage_distance_of p = gage_or_default gp" using h by (simp add: gage_distance_of_def)
  from transmitted_of_returns[of "map fst df" "clamp_positive (map snd df)" "char_time E rho L"]
  obtain tr where tr: "transmitted_of (map fst df) (clamp_positive (map snd df)) (char_time E rho L) = Inr tr"
    "length tr = length df"
    using assms(3) by (auto simp: length_clamp_positive)
  show ?thesis
    unfolding model_1d_present[OF h assms(2)] g tr by (simp add: tr)
qed

lemma valid_required:
  assumes "valid_parameters p"
  obtains E rho L where "required_entries p = Some (E, rho, L)" "0 < E" "0 < rho" "0 < L"
    "0 \<le> gage_distance_of p"
proof -
  from assms obtain mp gp E rho L where h:
    "p ''material_properties'' = Some mp" "p ''geometric_parameters'' = Some gp"
    "mp ''elastic_modulus'' = Some E" "mp ''density'' = Some rho"
    "gp ''junction_length'' = Some L" "0 < E" "0 < rho" "0 < L" "0 \<le> gage_or_default gp"
    by (rule valid_parametersE)
  then have "required_entries p = Some (E, rho, L)" "0 \<le> gage_distance_of p"
    by (simp_all add: required_entries_def gage_distance_of_def)
  with h that show thesis by blast
qed

lemma valid_parameters_of:
  "valid_parameters (parameters_of E rho L g) \<longleftrightarrow>
     0 < E \<and> 0 < rho \<and> 0 < L \<and> (case g of None \<Rightarrow> True | Some gv \<Rightarrow> 0 \<le> gv)"
  by (cases g) (simp_all add: valid_parameters_def parameters_of_def)

lemma required_entries_of: "required_entries (parameters_of E rho L g) = Some (E, rho, L)"
  by (cases g) (simp_all add: required_entries_def parameters_of_def)

lemma gage_distance_of_parameters_of:
  "gage_distance_of (parameters_of E rho L g) = (case g of None \<Rightarrow> 0 | Some gv \<Rightarrow> gv)"
  by (cases g) (simp_all add: gage_distance_of_def gage_or_default_def parameters_of_def)


lemma model_1d_returns:
  assumes "required_entries p = Some (E, rho, L)" "rho \<noteq> 0" "df \<noteq> []"
  shows "\<exists>out. model_1d df p = Inr out"
  using model_1d_result[OF assms] by blast

lemma model_1d_gage_default:
  assumes "p ''geometric_parameters'' = Some gp" "gp ''gage_distance'' = None"
  shows "model_1d df p = model_1d df (p(''geometric_parameters'' \<mapsto> gp(''gage_distance'' \<mapsto> 0)))"
  using assms unfolding model_1d_def getitem_def
  by (simp cong: sum.case_cong option.case_cong split: option.splits)

section \<open>Lemmas on scenario A\<close>

lemma ranged_id_pos:
  assumes "lo \<le> x" and "x \<le> hi" and "1 / 2 ^ 1000 \<le> lo" and "hi \<le> 2 ^ 1000"
  shows "ranged x = Fin x"
proof -
  have "0 < lo" using assms(3) by (rule less_le_trans[rotated]) simp
  then have "\<bar>x\<bar> = x" using assms(1) by simp
  then show ?thesis using assms by (intro ranged_id) linarith+
qed

lemma scenario_A_char_time:
  "\<exists>tc. char_time (70 * 10 ^ 9) 2700 (1 / 2) = Fin tc \<and> 1 / 58400 \<le> tc \<and> tc \<le> 1 / 1800"
proof -
  let ?x = "70 * 10 ^ 9 / 2700 :: real"
  obtain y where y: "fl64 ?x = Fin y" "?x / 2 \<le> y" "y \<le> 2 * ?x"
    using fl64_bounds[of ?x] by auto
  have y0: "0 \<le> y" using y(2) by simp
  have s1: "3600 \<le> sqrt y" by (rule real_le_rsqrt) (use y(2) in simp)
  have s2: "sqrt y \<le> 7300" by (rule real_le_lsqrt) (use y(3) in simp_all)
  obtain c where c: "fl64 (sqrt y) = Fin c" "sqrt y / 2 \<le> c" "c \<le> 2 * sqrt y"
    using fl64_bounds[of "sqrt y"] s1 s2 by auto
  have cb: "1800 \<le> c" "c \<le> 14600" using c(2,3) s1 s2 by linarith+
  have ws: "wave_speed (70 * 10 ^ 9) 2700 = Fin c"
    using y(1) c(1) y0 by (simp add: wave_speed_def not_less)
  define z where "z = 1 / 2 / c"
  have zb: "1 / 29200 \<le> z" "z \<le> 1 / 3600" using cb by (simp_all add: z_def field_simps)
  obtain tc where tc: "fl64 z = Fin tc" "z / 2 \<le> tc" "tc \<le> 2 * z"
    using fl64_bounds[of z] zb by auto
  have "char_time (70 * 10 ^ 9) 2700 (1 / 2) = Fin tc"
    using ws tc(1) cb by (simp add: char_time_def z_def)
  moreover have "1 / 58400 \<le> tc" "tc \<le> 1 / 1800" using tc(2,3) zb by linarith+
  ultimately show ?thesis by blast
qed

lemma kernel_benign:
  assumes "1 / 58400 \<le> tc" and "tc \<le> 1 / 1800"
    and "\<forall>t\<in>set time. t = 0 \<or> (1 / 10 ^ 6 \<le> t \<and> t \<le> 1 / 1000)"
  shows "kernel_of time (Fin tc) = map Fin (map (\<lambda>t. exp (- t / tc) / tc) time)"
    and "\<forall>k\<in>set (map (\<lambda>t. exp (- t / tc) / tc) time). 1800 / 3 ^ 59 \<le> k \<and> k \<le> 58400"
proof -
  have tc0: "0 < tc" using assms(1) by (rule less_le_trans[rotated]) simp
  have one: "np_div ranged (np_exp ranged (np_div ranged (Fin (- t)) (Fin tc))) (Fin tc)
               = Fin (exp (- t / tc) / tc) \<and>
             1800 / 3 ^ 59 \<le> exp (- t / tc) / tc \<and> exp (- t / tc) / tc \<le> 58400"
    if t: "t = 0 \<or> (1 / 10 ^ 6 \<le> t \<and> t \<le> 1 / 1000)" for t
  proof -
    let ?a = "- t / tc"
    have t0: "0 \<le> t" using t by auto
    have a_le: "?a \<le> 0" using t0 tc0 by (simp add: field_simps)
    have a_ge: "- 59 \<le> ?a"
    proof -
      have "t / tc \<le> (1 / 1000) / (1 / 58400)"
        using t assms(1) tc0 by (intro frac_le) auto
      also have "\<dots> \<le> (59::real)" by simp
      finally have "t / tc \<le> 59" .
      moreover have "- t / tc = - (t / tc)" by simp
      ultimately show ?thesis by linarith
    qed
    have ra: "ranged ?a = Fin ?a"
    proof (rule ranged_id0)
      show "?a = 0 \<or> 1 / 2 ^ 1000 \<le> \<bar>?a\<bar> \<and> \<bar>?a\<bar> \<le> 2 ^ 1000"
      proof (cases "t = 0")
        case True
        then show ?thesis by simp
      next
        case False
        with t have tb: "1 / 10 ^ 6 \<le> t" by auto
        have "(1 / 10 ^ 6) / (1 / 1800) \<le> t / tc"
          using tb assms(2) tc0 by (intro frac_le) auto
        moreover have "\<bar>?a\<bar> = t / tc" using t0 tc0 by (simp add: abs_if field_simps)
        moreover have "t / tc \<le> 59" using a_ge by simp
        ultimately show ?thesis by simp
      qed
    qed
    have e_ge: "1 / 3 ^ 59 \<le> exp ?a" using exp_nat_lower[of 59 ?a] a_ge by simp
    have e_le: "exp ?a \<le> 1" using a_le by simp
    have re: "ranged (exp ?a) = Fin (exp ?a)"
      using e_ge e_le by (rule ranged_id_pos) simp_all
    let ?k = "exp ?a / tc"
    have k_ge: "1800 / 3 ^ 59 \<le> ?k"
    proof -
      have "(1 / 3 ^ 59) / (1 / 1800) \<le> exp ?a / tc"
        using e_ge assms(2) tc0 by (intro frac_le) auto
      then show ?thesis by simp
    qed
    have k_le: "?k \<le> 58400"
    proof -
      have "exp ?a / tc \<le> 1 / (1 / 58400)"
        using e_le assms(1) tc0 by (intro frac_le) auto
      then show ?thesis by simp
    qed
    have k0: "0 < ?k" using tc0 by simp
    have rk: "ranged ?k = Fin ?k"
      using k_ge k_le by (rule ranged_id_pos) simp_all
    show ?thesis using tc0 ra re rk k_ge k_le by simp
  qed
  show "kernel_of time (Fin tc) = map Fin (map (\<lambda>t. exp (- t / tc) / tc) time)"
    unfolding kernel_of_def using one assms(3) by simp
  show "\<forall>k\<in>set (map (\<lambda>t. exp (- t / tc) / tc) time). 1800 / 3 ^ 59 \<le> k \<and> k \<le> 58400"
    using one assms(3) by auto
qed

lemma ranged_id_neg:
  assumes "lo \<le> x" and "x \<le> hi" and "1 / 2 ^ 1000 \<le> lo" and "hi \<le> 2 ^ 1000"
  shows "ranged (- x) = Fin (- x)"
proof -
  have "0 < lo" using assms(3) by (rule less_le_trans[rotated]) simp
  then have "\<bar>- x\<bar> = x" using assms(1) by simp
  then show ?thesis using assms by (intro ranged_id) linarith+
qed

lemma clamp_positive_const: "\<forall>x\<in>set xs. x = - 1 \<Longrightarrow> clamp_positive xs = xs"
  by (induction xs) (simp_all add: clamp_positive_def)

lemma partial_sums_mono:
  fixes k :: "real list"
  assumes "\<forall>m<N. 0 < k ! m" "i < j" "j < N"
  shows "(\<Sum>m\<le>i. k ! m) < (\<Sum>m\<le>j. k ! m)"
proof (rule sum_strict_mono2)
  show "finite {..j}" by simp
  show "{..i} \<subseteq> {..j}" using assms(2) by auto
  show "j \<in> {..j} - {..i}" using assms(2) by auto
  show "0 < k ! j" using assms(1,3) by simp
  show "\<And>x. x \<in> {..j} \<Longrightarrow> 0 \<le> k ! x" using assms(1,3) by (auto intro!: less_imp_le)
qed

lemma partial_sums_pos:
  fixes k :: "real list"
  assumes "\<forall>m<N. 0 < k ! m" "i < N"
  shows "0 < (\<Sum>m\<le>i. k ! m)"
proof (rule sum_pos)
  show "finite {..i}" by simp
  show "{..i} \<noteq> {}" by auto
  show "\<And>m. m \<in> {..i} \<Longrightarrow> 0 < k ! m" using assms by auto
qed

lemma partial_sums_le:
  fixes k :: "real list"
  assumes "\<forall>m<N. 0 < k ! m" "i < N"
  shows "(\<Sum>m\<le>i. k ! m) \<le> (\<Sum>m<N. k ! m)"
proof (rule sum_mono2)
  show "finite {..<N}" by simp
  show "{..i} \<subseteq> {..<N}" using assms(2) by auto
  show "\<And>b. b \<in> {..<N} - {..i} \<Longrightarrow> 0 \<le> k ! b" using assms(1) by (auto intro!: less_imp_le)
qed

lemma constant_incident_benign:
  fixes ks :: "real list"
  assumes kern: "kernel_of time t = map Fin ks"
    and bounds: "\<forall>k\<in>set ks. lo \<le> k \<and> k \<le> hi"
    and lo: "1 / 2 ^ 1000 \<le> lo"
    and hi: "real (length ks) * hi \<le> 2 ^ 1000"
    and quot: "1 / 2 ^ 1000 \<le> lo / (real (length ks) * hi)"
    and inc: "\<forall>x\<in>set inc. x = - 1"
    and len: "length inc = length time" "time \<noteq> []"
  defines "N \<equiv> length time"
  defines "P \<equiv> \<lambda>n. \<Sum>m\<le>n. ks ! m"
  defines "S \<equiv> \<Sum>m<N. ks ! m"
  shows "transmitted_of time inc t = Inr (map (\<lambda>n. Fin (P n / S)) [0..<N])"
    and "reflected_of inc (map (\<lambda>n. Fin (P n / S)) [0..<N]) = map (\<lambda>n. Fin (1 - P n / S)) [0..<N]"
proof -
  have lk: "length ks = N"
    using arg_cong[OF kern, of length] by (simp add: length_kernel_of N_def)
  have N0: "0 < N" using len(2) by (simp add: N_def)
  have lo0: "0 < lo" using lo by (rule less_le_trans[rotated]) simp
  have kb: "lo \<le> ks ! m" "ks ! m \<le> hi" if "m < N" for m
    using bounds that lk by (auto dest: nth_mem)
  have kpos: "\<forall>m<N. 0 < ks ! m" using kb(1) lo0 by (auto intro: less_le_trans)
  have hi0: "0 < hi" using kb[of 0] N0 lo0 by linarith
  have hi_le: "hi \<le> 2 ^ 1000"
  proof -
    have "1 * hi \<le> real N * hi" using N0 hi0 by (intro mult_right_mono) simp_all
    then show ?thesis using hi lk by simp
  qed
  have S_sum: "S = sum_list ks" by (simp add: S_def sum_list_sum_nth lk atLeast0LessThan)
  have S_le: "S \<le> real N * hi"
  proof -
    have "S \<le> (\<Sum>m<N. hi)" unfolding S_def using kb(2) by (intro sum_mono) simp
    then show ?thesis by simp
  qed
  have P_le: "P n \<le> S" if "n < N" for n
    unfolding P_def S_def using partial_sums_le[OF kpos that] .
  have P_ge: "lo \<le> P n" if "n < N" for n
  proof -
    have "ks ! 0 \<le> P n" unfolding P_def
      using kpos that by (intro member_le_sum) (auto intro!: less_imp_le)
    with kb(1)[OF N0] show ?thesis by linarith
  qed
  have S_ge: "lo \<le> S" using P_ge[of "N - 1"] P_le[of "N - 1"] N0 by simp
  have S0: "0 < S" using S_ge lo0 by linarith
  have S_top: "S \<le> 2 ^ 1000" using S_le hi lk by simp
  have inc_nth: "inc ! j = - 1" if "j < N" for j
    using inc that len(1) by (simp add: N_def)
  \<comment> \<open>the sum of the kernel\<close>
  have sumk: "np_sum (map Fin ks) = Fin S"
    unfolding S_sum
  proof (rule np_sum_Fin[OF _ _ _ lo, where s = 1])
    show "\<forall>x\<in>set ks. lo \<le> 1 * x" using bounds by simp
    show "1 * sum_list ks \<le> 2 ^ 1000" using S_top S_sum by simp
    show "(1::real) = 1 \<or> (1::real) = - 1" by simp
  qed
  \<comment> \<open>a sample of the convolution\<close>
  have conv: "np_sum (conv_terms (map Fin ks) (map Fin inc) n) = Fin (- P n)" if n: "n < N" for n
  proof -
    have terms: "conv_terms (map Fin ks) (map Fin inc) n
                 = map Fin (map (\<lambda>m. - (ks ! m)) [0..<Suc n])"
    proof -
      have "conv_terms (map Fin ks) (map Fin inc) n
            = map (\<lambda>m. np_mul ranged (map Fin ks ! m) (map Fin inc ! (n - m))) [0..<Suc n]"
        unfolding conv_terms_def using filter_conv_index[OF n] len(1) lk
        by (simp add: N_def)
      also have "\<dots> = map (\<lambda>m. Fin (- (ks ! m))) [0..<Suc n]"
      proof (rule map_cong[OF refl])
        fix m assume "m \<in> set [0..<Suc n]"
        then have m: "m < N" "n - m < N" using n by auto
        have "ranged (- (ks ! m)) = Fin (- (ks ! m))"
          using kb[OF m(1)] lo hi_le by (rule ranged_id_neg)
        then show "np_mul ranged (map Fin ks ! m) (map Fin inc ! (n - m)) = Fin (- (ks ! m))"
          using m lk len(1) inc_nth[OF m(2)] by (simp add: N_def)
      qed
      finally show ?thesis by (simp add: o_def)
    qed
    have sl: "sum_list (map (\<lambda>m. - (ks ! m)) [0..<Suc n]) = - P n"
      unfolding P_def
      by (simp only: interv_sum_list_conv_sum_set_nat set_upt sum_negf atLeast0LessThan
            lessThan_Suc_atMost)
    have "np_sum (map Fin (map (\<lambda>m. - (ks ! m)) [0..<Suc n]))
          = Fin (sum_list (map (\<lambda>m. - (ks ! m)) [0..<Suc n]))"
    proof (rule np_sum_Fin[OF _ _ _ lo, where s = "- 1"])
      show "\<forall>x\<in>set (map (\<lambda>m. - (ks ! m)) [0..<Suc n]). lo \<le> - 1 * x"
        using kb(1) n by (auto simp del: upt_Suc)
      show "- 1 * sum_list (map (\<lambda>m. - (ks ! m)) [0..<Suc n]) \<le> 2 ^ 1000"
        unfolding sl using P_le[OF n] S_top by simp
      show "(- 1::real) = 1 \<or> (- 1::real) = - 1" by simp
    qed
    then show ?thesis unfolding terms sl .
  qed
  \<comment> \<open>a transmitted sample\<close>
  have q_ge: "1 / 2 ^ 1000 \<le> P n / S" if "n < N" for n
  proof -
    have "lo / (real N * hi) \<le> P n / S"
      using P_ge[OF that] S_le S0 lo0 by (intro frac_le) simp_all
    with quot[unfolded lk] show ?thesis by (rule order_trans)
  qed
  have q_le: "P n / S \<le> 1" if "n < N" for n using P_le[OF that] S0 by simp
  have sample: "np_div ranged (np_mul ranged (Fin (- 1)) (Fin (- P n))) (Fin S) = Fin (P n / S)"
    if n: "n < N" for n
  proof -
    have "ranged (P n) = Fin (P n)"
      using P_ge[OF n] P_le[OF n] S_top lo by (intro ranged_id_pos[where lo = lo and hi = S])
    moreover have "ranged (P n / S) = Fin (P n / S)"
      using q_ge[OF n] q_le[OF n] by (intro ranged_id_pos[where lo = "1 / 2 ^ 1000" and hi = 1]) simp_all
    ultimately show ?thesis using S0 by simp
  qed
  have ne: "map Fin ks \<noteq> []" "map Fin inc \<noteq> []" using N0 lk len(1) by (auto simp: N_def)
  have conv_full: "convolve (map Fin ks) (map Fin inc)
        = Inr (map (\<lambda>n. np_sum (conv_terms (map Fin ks) (map Fin inc) n)) [0..<N + N - 1])"
    using ne lk len(1) by (simp add: convolve_def N_def)
  have tk: "take N [0..<N + N - 1] = [0..<N]" using N0 by (simp add: take_upt)
  have "transmitted_of time inc t
        = Inr (map (\<lambda>n. np_div ranged (np_mul ranged (Fin (- 1))
                    (np_sum (conv_terms (map Fin ks) (map Fin inc) n))) (np_sum (map Fin ks))) [0..<N])"
    unfolding transmitted_of_def Let_def kern conv_full
    using tk len(1) by (simp add: take_map N_def o_def)
  also have "map (\<lambda>n. np_div ranged (np_mul ranged (Fin (- 1))
                    (np_sum (conv_terms (map Fin ks) (map Fin inc) n))) (np_sum (map Fin ks))) [0..<N]
             = map (\<lambda>n. Fin (P n / S)) [0..<N]"
  proof (rule map_cong[OF refl])
    fix n assume "n \<in> set [0..<N]"
    then have n: "n < N" by simp
    show "np_div ranged (np_mul ranged (Fin (- 1))
             (np_sum (conv_terms (map Fin ks) (map Fin inc) n))) (np_sum (map Fin ks))
          = Fin (P n / S)"
      by (simp only: conv[OF n] sumk sample[OF n])
  qed
  finally show "transmitted_of time inc t = Inr (map (\<lambda>n. Fin (P n / S)) [0..<N])" .
  \<comment> \<open>a reflected sample\<close>
  have refl: "np_neg (np_add ranged (Fin (- 1)) (Fin (P n / S))) = Fin (1 - P n / S)"
    if n: "n < N" for n
  proof (cases "n = N - 1")
    case True
    have "{..N - 1} = {..<N}" using N0 by auto
    then have "P n = S" unfolding True P_def S_def by simp
    then show ?thesis using S0 by (simp add: ranged_0)
  next
    case False
    then have n1: "Suc n < N" using n by simp
    have "P (Suc n) = P n + ks ! Suc n" by (simp add: P_def)
    with P_le[OF n1] kb(1)[OF n1] have gap: "lo \<le> S - P n" by linarith
    have "lo / (real N * hi) \<le> (S - P n) / S"
      using gap S_le S0 lo0 by (intro frac_le) simp_all
    with quot[unfolded lk] have g1: "1 / 2 ^ 1000 \<le> (S - P n) / S" by (rule order_trans)
    have g2: "(S - P n) / S = 1 - P n / S" using S0 by (simp add: field_simps)
    have g3: "1 - P n / S \<le> 1" using P_ge[OF n] lo0 S0 by simp
    have g4: "1 / 2 ^ 1000 \<le> 1 - P n / S" using g1 unfolding g2 .
    have "ranged (- (1 - P n / S)) = Fin (- (1 - P n / S))"
      by (rule ranged_id_neg[OF g4 g3]) simp_all
    moreover have "- 1 + P n / S = - (1 - P n / S)" by simp
    ultimately have "ranged (- 1 + P n / S) = Fin (- (1 - P n / S))" by (simp only:)
    then show ?thesis by simp
  qed
  show "reflected_of inc (map (\<lambda>n. Fin (P n / S)) [0..<N]) = map (\<lambda>n. Fin (1 - P n / S)) [0..<N]"
  proof (rule nth_equalityI)
    show "length (reflected_of inc (map (\<lambda>n. Fin (P n / S)) [0..<N]))
          = length (map (\<lambda>n. Fin (1 - P n / S)) [0..<N])"
      using len(1) by (simp add: reflected_of_def N_def)
    fix i assume "i < length (reflected_of inc (map (\<lambda>n. Fin (P n / S)) [0..<N]))"
    then have i: "i < N" using len(1) by (simp add: reflected_of_def N_def)
    show "reflected_of inc (map (\<lambda>n. Fin (P n / S)) [0..<N]) ! i
          = map (\<lambda>n. Fin (1 - P n / S)) [0..<N] ! i"
      using refl[OF i] inc_nth[OF i] i len(1)
      by (simp add: reflected_of_def N_def[symmetric])
  qed
qed

lemma scenario_A_length: "length scenario_A_incident = 1000"
  by (simp add: scenario_A_incident_def)

lemma scenario_A_constant: "\<forall>x\<in>set (map snd scenario_A_incident). x = - 1"
  by (simp add: scenario_A_incident_def)

lemma scenario_A_times:
  "\<forall>t\<in>set (map fst scenario_A_incident). t = 0 \<or> (1 / 10 ^ 6 \<le> t \<and> t \<le> 1 / 1000)"
proof
  fix t assume "t \<in> set (map fst scenario_A_incident)"
  then obtain i :: nat where i: "i < 1000" "t = real i / 10 ^ 6"
    by (auto simp: scenario_A_incident_def)
  show "t = 0 \<or> (1 / 10 ^ 6 \<le> t \<and> t \<le> 1 / 1000)"
  proof (cases "i = 0")
    case True
    then show ?thesis using i by simp
  next
    case False
    then have "1 \<le> real i" "real i \<le> 1000" using i(1) by simp_all
    then show ?thesis unfolding i(2) by (simp add: field_simps)
  qed
qed

lemma last_partial_sum: "(\<Sum>m\<le>999. (k::real list) ! m) = (\<Sum>m<1000. k ! m)"
proof -
  have "{..999::nat} = {..<1000}" by auto
  then show ?thesis by simp
qed

lemma scenario_A_sums:
  "\<exists>out k. model_1d scenario_A_incident scenario_A_parameters = Inr out \<and>
     (\<forall>m<1000. 0 < k ! m) \<and> length (transmitted out) = 1000 \<and>
     (\<forall>i<1000. transmitted out ! i = Some ((\<Sum>m\<le>i. k ! m) / (\<Sum>m<1000. k ! m)) \<and>
        reflected out ! i = Some (1 - (\<Sum>m\<le>i. k ! m) / (\<Sum>m<1000. k ! m)))"
proof -
  let ?time = "map fst scenario_A_incident" and ?inc = "map snd scenario_A_incident"
  have ne: "scenario_A_incident \<noteq> []" using scenario_A_length by auto
  have r: "required_entries scenario_A_parameters = Some (70 * 10 ^ 9, 2700, 1 / 2)"
    by (simp add: scenario_A_parameters_def required_entries_of)
  have inc: "clamp_positive ?inc = ?inc" using scenario_A_constant by (rule clamp_positive_const)
  obtain tc where tc: "char_time (70 * 10 ^ 9) 2700 (1 / 2) = Fin tc" "1 / 58400 \<le> tc" "tc \<le> 1 / 1800"
    using scenario_A_char_time by blast
  from model_1d_result[OF r _ ne] obtain out tr where out:
    "model_1d scenario_A_incident scenario_A_parameters = Inr out"
    "transmitted_of ?time ?inc (Fin tc) = Inr tr"
    "transmitted out = map to_float64 tr"
    "reflected out = map to_float64 (reflected_of ?inc tr)"
    unfolding inc tc(1) by auto
  define ks where "ks = map (\<lambda>t. exp (- t / tc) / tc) ?time"
  note kb = kernel_benign[OF tc(2,3) scenario_A_times, folded ks_def]
  have lk: "length ks = 1000" by (simp add: ks_def scenario_A_length)
  have tne: "?time \<noteq> []" using ne by simp
  have len: "length ?inc = length ?time" by simp
  have lo: "(1::real) / 2 ^ 1000 \<le> 1800 / 3 ^ 59" by simp
  have hi: "real (length ks) * 58400 \<le> 2 ^ 1000" unfolding lk by simp
  have quot: "(1::real) / 2 ^ 1000 \<le> 1800 / 3 ^ 59 / (real (length ks) * 58400)"
    unfolding lk by simp
  note b = constant_incident_benign[OF kb(1) kb(2) lo hi quot scenario_A_constant len tne]
  have N: "length ?time = 1000" by (simp add: scenario_A_length)
  let ?P = "\<lambda>n. \<Sum>m\<le>n. ks ! m" and ?S = "\<Sum>m<1000. ks ! m"
  have tr: "tr = map (\<lambda>n. Fin (?P n / ?S)) [0..<1000]"
    using b(1) out(2) unfolding N by simp
  have T: "transmitted out = map (\<lambda>n. Some (?P n / ?S)) [0..<1000]"
    unfolding out(3) tr by (simp add: to_float64_def o_def)
  have R: "reflected out = map (\<lambda>n. Some (1 - ?P n / ?S)) [0..<1000]"
    unfolding out(4) tr using b(2) unfolding N by (simp add: to_float64_def o_def)
  have pos: "\<forall>m<1000. 0 < ks ! m"
  proof (intro allI impI)
    fix m :: nat assume "m < 1000"
    then have "ks ! m \<in> set ks" using lk by (intro nth_mem) simp
    with kb(2) have "1800 / 3 ^ 59 \<le> ks ! m" by blast
    moreover have "(0::real) < 1800 / 3 ^ 59" by simp
    ultimately show "0 < ks ! m" by linarith
  qed
  have "length (transmitted out) = 1000" unfolding T by simp
  moreover have "\<forall>i<1000. transmitted out ! i = Some (?P i / ?S) \<and>
        reflected out ! i = Some (1 - ?P i / ?S)"
    unfolding T R by simp
  ultimately show ?thesis using out(1) pos by blast
qed

section \<open>Lemmas on the float64 evaluation of two records\<close>

lemma fl64_04: "fl64 (4 / 10) = Fin (3602879701896397 / 2 ^ 53)"
  by (subst fl64_lt1[where n = 2]) (simp_all add: rint_def)

lemma fl64_1e6: "fl64 (1 / 10 ^ 6) = Fin (4722366482869645 / 2 ^ 72)"
  by (subst fl64_lt1[where n = 20]) (simp_all add: rint_def)

lemma fl64_2e6: "fl64 (2 / 10 ^ 6) = Fin (4722366482869645 / 2 ^ 71)"
  by (subst fl64_lt1[where n = 19]) (simp_all add: rint_def)

lemma fl64_259e6: "fl64 (259 / 10 ^ 6) = Fin (4777706715090774 / 2 ^ 64)"
  by (subst fl64_lt1[where n = 12]) (simp_all add: rint_def)

lemma float_of_04: "float_of (4 / 10) = 3602879701896397 / 2 ^ 53"
  by (simp only: float_of_def fl64_04 ieee.case)

lemma float_of_1e6: "float_of (1 / 10 ^ 6) = 4722366482869645 / 2 ^ 72"
  by (simp only: float_of_def fl64_1e6 ieee.case)

lemma float_of_2e6: "float_of (2 / 10 ^ 6) = 4722366482869645 / 2 ^ 71"
  by (simp only: float_of_def fl64_2e6 ieee.case)

lemma float_of_259e6: "float_of (259 / 10 ^ 6) = 4777706715090774 / 2 ^ 64"
  by (simp only: float_of_def fl64_259e6 ieee.case)

lemma quantization_wave_speed: "wave_speed 67500000000 2700 = Fin 5000"
proof -
  have a: "fl64 25000000 = Fin 25000000"
    by (subst fl64_ge1[where n = 24]) (simp_all add: rint_def)
  have b: "sqrt 25000000 = 5000" by (rule real_sqrt_unique) simp_all
  have c: "fl64 5000 = Fin 5000"
    by (subst fl64_ge1[where n = 12]) (simp_all add: rint_def)
  show ?thesis by (simp add: wave_speed_def a b c)
qed

lemma quantization_dt:
  "sample_interval [0, 4722366482869645 / 2 ^ 72, 4722366482869645 / 2 ^ 71]
     = Fin (4722366482869645 / 2 ^ 72)"
proof -
  have m: "median (diff [0, 4722366482869645 / 2 ^ 72, 4722366482869645 / 2 ^ 71])
             = Some (4722366482869645 / 2 ^ 72)"
    by (simp add: median_def)
  have a: "fl64 (4722366482869645 / 2 ^ 72) = Fin (4722366482869645 / 2 ^ 72)"
    by (subst fl64_lt1[where n = 20]) (simp_all add: rint_def)
  have b: "fl64 (4722366482869645 / 2 ^ 72 * 10 ^ 9) = Fin 1000"
    by (subst fl64_ge1[where n = 9]) (simp_all add: rint_def)
  have c: "rint 1000 = 1000" by (simp add: rint_def)
  have d: "fl64 (1000 / 10 ^ 9) = Fin (4722366482869645 / 2 ^ 72)"
    by (subst fl64_lt1[where n = 20]) (simp_all add: rint_def)
  show ?thesis
    unfolding sample_interval_def m option.case np_around9_def a
    by (simp only: np_mul.simps np_div.simps np_rint.simps b c d of_int_numeral) simp
qed

lemma quantization_delay:
  "propagation_delay (3602879701896397 / 2 ^ 53) (1 / 2) (Fin 5000)
     (Fin (4722366482869645 / 2 ^ 72)) = Fin (4777706715090774 / 2 ^ 64)"
proof -
  let ?g = "3602879701896397 / 2 ^ 53 :: real"
  let ?d1 = "4722366482869645 / 2 ^ 72 :: real"
  have g0: "?g \<noteq> 0" by simp
  have a: "fl64 (2 * ?g) = Fin (3602879701896397 / 2 ^ 52)"
    by (subst fl64_lt1[where n = 1]) (simp_all add: rint_def)
  have b: "fl64 (3602879701896397 / 2 ^ 52 + 1 / 2) = Fin (5854679515581645 / 2 ^ 52)"
    by (subst fl64_ge1[where n = 0]) (simp_all add: rint_def)
  have c: "fl64 (5854679515581645 / 2 ^ 52 / 5000) = Fin (4796153459164484 / 2 ^ 64)"
    by (subst fl64_lt1[where n = 12]) (simp_all add: rint_def)
  have d: "fl64 (4796153459164484 / 2 ^ 64 * 10 ^ 9) = Fin (8933531975680001 / 2 ^ 35)"
    by (subst fl64_ge1[where n = 17]) (simp_all add: rint_def)
  have e: "rint (8933531975680001 / 2 ^ 35) = 260000" by (simp add: rint_def)
  have f: "fl64 (260000 / 10 ^ 9) = Fin (4796153459164483 / 2 ^ 64)"
    by (subst fl64_lt1[where n = 12]) (simp_all add: rint_def)
  have h: "fl64 (4796153459164483 / 2 ^ 64 * 10 ^ 9) = Fin (8933531975679999 / 2 ^ 35)"
    by (subst fl64_ge1[where n = 17]) (simp_all add: rint_def)
  have i: "fl64 (?d1 * 10 ^ 9) = Fin 1000"
    by (subst fl64_ge1[where n = 9]) (simp_all add: rint_def)
  have j: "\<lfloor>8933531975679999 / 2 ^ 35 / (1000::real)\<rfloor> = 259" by simp
  have k: "fl64 259 = Fin 259"
    by (subst fl64_ge1[where n = 8]) (simp_all add: rint_def)
  have l: "fl64 (259 * ?d1) = Fin (4777706715090774 / 2 ^ 64)"
    by (subst fl64_lt1[where n = 12]) (simp_all add: rint_def)
  show ?thesis
    using a b c d e f h i j k l
    unfolding propagation_delay_def np_around9_def Let_def by simp
qed

lemma np_sum_zeros: "np_sum (replicate n (Fin 0)) = Fin 0"
proof -
  have "foldl (np_add ranged) (Fin 0) (replicate n (Fin 0)) = Fin 0"
    by (induction n) (simp_all add: ranged_0)
  then show ?thesis by (simp add: np_sum_def)
qed

lemma kernel_underflow:
  assumes "1 / 58400 \<le> tc" and "tc \<le> 1 / 1800" and "\<forall>t\<in>set time. 1 \<le> t \<and> t \<le> 10 ^ 6"
  shows "kernel_of time (Fin tc) = replicate (length time) (Fin 0)"
proof -
  have tc0: "0 < tc" using assms(1) by (rule less_le_trans[rotated]) simp
  have one: "np_div ranged (np_exp ranged (np_div ranged (Fin (- t)) (Fin tc))) (Fin tc) = Fin 0"
    if t: "1 \<le> t \<and> t \<le> 10 ^ 6" for t
  proof -
    let ?a = "- t / tc"
    have lo: "1 / (1 / 1800) \<le> t / tc" using t assms(2) tc0 by (intro frac_le) auto
    have hi: "t / tc \<le> 10 ^ 6 / (1 / 58400)" using t assms(1) tc0 by (intro frac_le) auto
    have na: "?a = - (t / tc)" by simp
    have "ranged (- (t / tc)) = Fin (- (t / tc))"
      by (rule ranged_id_neg[OF lo hi]) simp_all
    then have ra: "ranged ?a = Fin ?a" unfolding na .
    have "?a \<le> - real (1075::nat)" using lo unfolding na by simp
    then have "exp ?a \<le> 1 / 2 ^ 1075" by (rule exp_nat_upper)
    then have re: "ranged (exp ?a) = Fin 0" by (intro ranged_tiny) simp
    show ?thesis using tc0 ra re by (simp add: ranged_0)
  qed
  show ?thesis
    unfolding kernel_of_def using one assms(3) by (simp add: map_replicate_const[symmetric])
qed

lemma underflow_all_nan:
  assumes "kernel_of time t = replicate (length time) (Fin 0)"
    and "length inc = length time" and "time \<noteq> []"
  shows "transmitted_of time inc t = Inr (replicate (length time) NaN)"
    and "reflected_of inc (replicate (length time) NaN) = replicate (length time) NaN"
proof -
  let ?N = "length time"
  have N0: "0 < ?N" using assms(3) by simp
  have conv: "np_sum (conv_terms (replicate ?N (Fin 0)) (map Fin inc) n) = Fin 0" if n: "n < ?N" for n
  proof -
    have "conv_terms (replicate ?N (Fin 0)) (map Fin inc) n
          = map (\<lambda>m. np_mul ranged (replicate ?N (Fin 0) ! m) (map Fin inc ! (n - m))) [0..<Suc n]"
      unfolding conv_terms_def using filter_conv_index[OF n] assms(2) by simp
    also have "\<dots> = map (\<lambda>m. Fin 0) [0..<Suc n]"
    proof (rule map_cong[OF refl])
      fix m assume "m \<in> set [0..<Suc n]"
      then have m: "m < ?N" "n - m < ?N" using n by auto
      then show "np_mul ranged (replicate ?N (Fin 0) ! m) (map Fin inc ! (n - m)) = Fin 0"
        using assms(2) by (simp add: ranged_0)
    qed
    also have "\<dots> = replicate (Suc n) (Fin 0)" by (simp only: map_replicate_const length_upt diff_zero)
    finally show ?thesis by (simp only: np_sum_zeros)
  qed
  have ne: "replicate ?N (Fin 0) \<noteq> ([] :: ieee list)" "map Fin inc \<noteq> []"
    using N0 assms(2) by auto
  have conv_full: "convolve (replicate ?N (Fin 0)) (map Fin inc)
        = Inr (map (\<lambda>n. np_sum (conv_terms (replicate ?N (Fin 0)) (map Fin inc) n)) [0..<?N + ?N - 1])"
    using ne assms(2) by (simp add: convolve_def)
  have tk: "take ?N [0..<?N + ?N - 1] = [0..<?N]" using N0 by (simp add: take_upt)
  have "transmitted_of time inc t
        = Inr (map (\<lambda>n. np_div ranged (np_mul ranged (Fin (- 1))
                    (np_sum (conv_terms (replicate ?N (Fin 0)) (map Fin inc) n)))
                    (np_sum (replicate ?N (Fin 0)))) [0..<?N])"
    unfolding transmitted_of_def Let_def assms(1) conv_full
    using tk assms(2) by (simp add: take_map o_def)
  also have "map (\<lambda>n. np_div ranged (np_mul ranged (Fin (- 1))
                    (np_sum (conv_terms (replicate ?N (Fin 0)) (map Fin inc) n)))
                    (np_sum (replicate ?N (Fin 0)))) [0..<?N]
             = map (\<lambda>n. NaN) [0..<?N]"
  proof (rule map_cong[OF refl])
    fix n assume "n \<in> set [0..<?N]"
    then have n: "n < ?N" by simp
    show "np_div ranged (np_mul ranged (Fin (- 1))
             (np_sum (conv_terms (replicate ?N (Fin 0)) (map Fin inc) n)))
             (np_sum (replicate ?N (Fin 0))) = NaN"
      unfolding conv[OF n] np_sum_zeros by (simp add: ranged_0)
  qed
  also have "\<dots> = replicate ?N NaN" by (simp only: map_replicate_const length_upt diff_zero)
  finally show "transmitted_of time inc t = Inr (replicate ?N NaN)" .
  show "reflected_of inc (replicate ?N NaN) = replicate ?N NaN"
    using assms(2) by (intro nth_equalityI) (simp_all add: reflected_of_def)
qed

lemma late_scenario_A_nan:
  "\<exists>out. model_1d late_scenario_A_incident scenario_A_parameters = Inr out \<and>
     transmitted out = replicate 1000 None \<and> reflected out = replicate 1000 None"
proof -
  let ?time = "map fst late_scenario_A_incident" and ?inc = "clamp_positive (map snd late_scenario_A_incident)"
  have len: "length late_scenario_A_incident = 1000" by (simp add: late_scenario_A_incident_def)
  then have ne: "late_scenario_A_incident \<noteq> []" by auto
  have r: "required_entries scenario_A_parameters = Some (70 * 10 ^ 9, 2700, 1 / 2)"
    by (simp add: scenario_A_parameters_def required_entries_of)
  obtain tc where tc: "char_time (70 * 10 ^ 9) 2700 (1 / 2) = Fin tc" "1 / 58400 \<le> tc" "tc \<le> 1 / 1800"
    using scenario_A_char_time by blast
  have times: "\<forall>t\<in>set ?time. 1 \<le> t \<and> t \<le> 10 ^ 6"
  proof
    fix t assume "t \<in> set ?time"
    then obtain i :: nat where i: "i < 1000" "t = 1 + real i / 10 ^ 6"
      by (auto simp: late_scenario_A_incident_def)
    have "0 \<le> real i" "real i \<le> 1000" using i(1) by simp_all
    then show "1 \<le> t \<and> t \<le> 10 ^ 6" unfolding i(2) by (simp add: field_simps)
  qed
  from model_1d_result[OF r _ ne] obtain out tr where out:
    "model_1d late_scenario_A_incident scenario_A_parameters = Inr out"
    "transmitted_of ?time ?inc (Fin tc) = Inr tr"
    "transmitted out = map to_float64 tr"
    "reflected out = map to_float64 (reflected_of ?inc tr)"
    unfolding tc(1) by auto
  have N: "length ?time = 1000" by (simp add: len)
  have li: "length ?inc = length ?time" by (simp add: length_clamp_positive)
  have tne: "?time \<noteq> []" using ne by simp
  note u = underflow_all_nan[OF kernel_underflow[OF tc(2,3) times] li tne, unfolded N]
  have tr: "tr = replicate 1000 NaN" using u(1) out(2) by simp
  have "transmitted out = replicate 1000 None"
    unfolding out(3) tr by (simp add: to_float64_def)
  moreover have "reflected out = replicate 1000 None"
    unfolding out(4) tr u(2) by (simp add: to_float64_def)
  ultimately show ?thesis using out(1) by blast
qed

section \<open>Properties of signal preparation\<close>

text \<open>
  C3. When at least one record has a numeric, nonzero amplitude, signal preparation returns
  a series of numbers whose largest absolute amplitude is exactly 1.
\<close>

theorem normalization:
  assumes "(t, Some a) \<in> set rows" and "a \<noteq> 0"
  shows "\<exists>df xs. get_incident_data rows = Inr df \<and> map snd df = map Some xs
            \<and> py_max (map abs xs) = Inr 1"
proof -
  let ?df = "dropna rows"
  let ?abs = "map (\<lambda>(t, a). \<bar>a\<bar>) ?df"
  let ?m = "Max (set ?abs)"
  have mem: "(t, a) \<in> set ?df" using assms(1) by (simp add: dropna_mem)
  then have ne: "?abs \<noteq> []" by auto
  have pm: "py_max ?abs = Inr ?m" using ne by (rule py_max_Max)
  have "\<bar>a\<bar> \<in> set ?abs" using mem by force
  then have "\<bar>a\<bar> \<le> ?m" by simp
  then have pos: "0 < ?m" using assms(2) by linarith
  let ?xs = "map (\<lambda>(t, a). a / ?m) ?df"
  have g: "get_incident_data rows = Inr (map (\<lambda>(t, a). (t, true_divide a ?m)) ?df)"
    using pm by (simp add: get_incident_data_def Let_def)
  have s: "map snd (map (\<lambda>(t, a). (t, true_divide a ?m)) ?df) = map Some ?xs"
    using pos by (simp add: true_divide_def split_def)
  have abs_eq: "map abs ?xs = map (\<lambda>x. x / ?m) ?abs"
    using pos by (simp add: split_def)
  have ne2: "map abs ?xs \<noteq> []" using ne by simp
  have "set (map abs ?xs) = (\<lambda>x. x / ?m) ` set ?abs"
    unfolding abs_eq by (rule set_map)
  then have "Max (set (map abs ?xs)) = Max ((\<lambda>x. x / ?m) ` set ?abs)"
    by (rule arg_cong)
  also have "\<dots> = ?m / ?m"
  proof (rule mono_Max_commute[symmetric])
    show "mono (\<lambda>x. x / ?m)" using pos by (auto intro!: monoI divide_right_mono)
    show "finite (set ?abs)" by simp
    show "set ?abs \<noteq> {}" using ne by simp
  qed
  also have "\<dots> = 1" using pos by simp
  finally have "py_max (map abs ?xs) = Inr 1" using py_max_Max[OF ne2] by simp
  with g s show ?thesis by blast
qed

theorem normalization_witness:
  "(Some 0, Some 2) \<in> set [(Some 0, Some 2), (Some 1, None), (Some 2, Some (- 4))] \<and>
   (2::real) \<noteq> 0 \<and>
   (\<exists>df xs. get_incident_data [(Some 0, Some 2), (Some 1, None), (Some 2, Some (- 4))] = Inr df \<and>
       map snd df = map Some xs \<and> py_max (map abs xs) = Inr 1)"
proof -
  have h1: "(Some 0, Some 2) \<in> set [(Some 0, Some 2), (Some 1, None), (Some 2, Some (- 4))]"
    by simp
  have h2: "(2::real) \<noteq> 0" by simp
  from normalization[OF h1 h2] h1 h2 show ?thesis by blast
qed

text \<open>
  C9, as the specification states it, asks for an error on an all-zero incident array. The
  program raises none: every amplitude of the result is \<open>0 / 0\<close>.
\<close>

theorem all_zero_counterexample:
  "get_incident_data [(Some 0, Some 0), (Some 1, Some 0)] = Inr [(Some 0, None), (Some 1, None)]"
  by (simp add: get_incident_data_def true_divide_def)

text \<open>
  C9, amended. When the numeric amplitudes are all zero and there is at least one of them,
  signal preparation raises no error: it returns the records that \<open>dropna\<close> keeps, every
  amplitude being \<open>nan\<close>.
\<close>

theorem all_zero_gives_nan:
  assumes "dropna rows \<noteq> []" and "list_all (\<lambda>(t, a). a = 0) (dropna rows)"
  shows "get_incident_data rows = Inr (map (\<lambda>(t, a). (t, None)) (dropna rows))"
proof -
  let ?df = "dropna rows"
  let ?abs = "map (\<lambda>(t, a). \<bar>a\<bar>) ?df"
  have zero: "a = 0" if "(t, a) \<in> set ?df" for t a
    using that assms(2) by (auto simp: list_all_iff)
  have ne: "?abs \<noteq> []" using assms(1) by simp
  then obtain x where "x \<in> set ?abs" by (cases ?abs) auto
  moreover have "x = 0" if "x \<in> set ?abs" for x using that zero by auto
  ultimately have "set ?abs = {0}" by blast
  then have "py_max ?abs = Inr 0" using py_max_Max[OF ne] by simp
  then have "get_incident_data rows = Inr (map (\<lambda>(t, a). (t, true_divide a 0)) ?df)"
    by (simp add: get_incident_data_def Let_def)
  then show ?thesis by (simp add: true_divide_def)
qed

theorem all_zero_gives_nan_witness:
  "dropna [(Some 5, Some 0), (Some 6, None), (None, Some 0)] \<noteq> [] \<and>
   list_all (\<lambda>(t, a). a = 0) (dropna [(Some 5, Some 0), (Some 6, None), (None, Some 0)]) \<and>
   get_incident_data [(Some 5, Some 0), (Some 6, None), (None, Some 0)]
     = Inr [(Some 5, None), (None, None)]"
proof -
  have h1: "dropna [(Some 5, Some 0), (Some 6, None), (None, Some (0::real))] \<noteq> []" by simp
  have h2: "list_all (\<lambda>(t, a). a = 0) (dropna [(Some 5, Some 0), (Some 6, None), (None, Some (0::real))])"
    by simp
  from all_zero_gives_nan[OF h1 h2] h1 h2 show ?thesis by simp
qed

section \<open>Properties of the wave-splitting model\<close>

text \<open>
  C4. For valid parameters and a series of \<open>N \<ge> 1\<close> samples, the kernel has \<open>N\<close> samples, the
  full convolution of the kernel and the sign-corrected incident has \<open>2N - 1\<close> samples, and
  the transmitted array is the negated, normalised convolution cut to its first \<open>N\<close>
  samples: it has exactly \<open>N\<close> samples.
\<close>

theorem truncation_length:
  assumes "valid_parameters p" and "df \<noteq> []"
  shows "\<exists>out t_ch full. model_1d df p = Inr out \<and>
           length (kernel_of (map fst df) t_ch) = length df \<and>
           convolve (kernel_of (map fst df) t_ch) (map Fin (incident out)) = Inr full \<and>
           length full = 2 * length df - 1 \<and>
           transmitted out = take (length df)
              (map (\<lambda>x. to_float64 (np_div ranged (np_mul ranged (Fin (- 1)) x)
                                       (np_sum (kernel_of (map fst df) t_ch)))) full) \<and>
           length (transmitted out) = length df"
proof -
  from assms(1) obtain E rho L where h:
    "required_entries p = Some (E, rho, L)" "0 < E" "0 < rho" "0 < L"
    by (rule valid_required)
  have rho: "rho \<noteq> 0" using h(3) by simp
  let ?time = "map fst df" and ?inc = "clamp_positive (map snd df)"
  let ?t = "char_time E rho L"
  let ?k = "kernel_of ?time ?t"
  from model_1d_result[OF h(1) rho assms(2)] obtain out tr where out:
    "model_1d df p = Inr out" "transmitted_of ?time ?inc ?t = Inr tr" "length tr = length df"
    "incident out = ?inc" "transmitted out = map to_float64 tr" by blast
  have ne: "?k \<noteq> []" "map Fin ?inc \<noteq> []"
    using assms(2) by (simp_all add: kernel_of_def clamp_positive_def)
  from convolve_full[OF ne] obtain full where full: "convolve ?k (map Fin ?inc) = Inr full"
    and lf: "length full = length ?k + length (map Fin ?inc) - 1" by blast
  have tr: "tr = take (length df)
      (map (\<lambda>x. np_div ranged (np_mul ranged (Fin (- 1)) x) (np_sum ?k)) full)"
    using transmitted_of_convolve[OF full] out(2) by (simp add: length_clamp_positive)
  have "transmitted out = take (length df)
      (map (\<lambda>x. to_float64 (np_div ranged (np_mul ranged (Fin (- 1)) x) (np_sum ?k))) full)"
    unfolding out(5) tr by (simp add: take_map o_def)
  moreover have "length full = 2 * length df - 1"
    using lf by (simp add: length_kernel_of length_clamp_positive)
  moreover have "length (transmitted out) = length df" using out(3,5) by simp
  ultimately show ?thesis using out(1,4) full by (auto simp: length_kernel_of)
qed

theorem truncation_length_witness:
  "valid_parameters (parameters_of 4 1 2 (Some 3)) \<and> [(0, - 1), (1, 1 / 2), (2, 0)] \<noteq> [] \<and>
   (\<exists>out t_ch full.
      model_1d [(0, - 1), (1, 1 / 2), (2, 0)] (parameters_of 4 1 2 (Some 3)) = Inr out \<and>
      length (kernel_of (map fst [(0::real, - 1::real), (1, 1 / 2), (2, 0)]) t_ch) =
        length [(0::real, - 1::real), (1, 1 / 2), (2, 0)] \<and>
      convolve (kernel_of (map fst [(0::real, - 1::real), (1, 1 / 2), (2, 0)]) t_ch)
        (map Fin (incident out)) = Inr full \<and>
      length full = 2 * length [(0::real, - 1::real), (1, 1 / 2), (2, 0)] - 1 \<and>
      transmitted out = take (length [(0::real, - 1::real), (1, 1 / 2), (2, 0)])
        (map (\<lambda>x. to_float64 (np_div ranged (np_mul ranged (Fin (- 1)) x)
                (np_sum (kernel_of (map fst [(0::real, - 1::real), (1, 1 / 2), (2, 0)]) t_ch))))
           full) \<and>
      length (transmitted out) = length [(0::real, - 1::real), (1, 1 / 2), (2, 0)])"
proof -
  have h1: "valid_parameters (parameters_of 4 1 2 (Some 3))" by (simp add: valid_parameters_of)
  have h2: "[(0::real, - 1::real), (1, 1 / 2), (2, 0)] \<noteq> []" by simp
  from truncation_length[OF h1 h2] h1 h2 show ?thesis by blast
qed

text \<open>
  C5. For valid parameters and a series with at least one sample, the array that enters the
  convolution holds 0 at every index where the amplitude of the series is positive, and
  the amplitude itself where it is not positive; the transmitted array is computed from
  that array.
\<close>

theorem sign_clamp:
  assumes "valid_parameters p" and "df \<noteq> []"
  shows "\<exists>out t_ch full tr. model_1d df p = Inr out \<and>
           length (incident out) = length df \<and>
           (\<forall>i<length df. (0 < snd (df ! i) \<longrightarrow> incident out ! i = 0) \<and>
                           (snd (df ! i) \<le> 0 \<longrightarrow> incident out ! i = snd (df ! i))) \<and>
           convolve (kernel_of (map fst df) t_ch) (map Fin (incident out)) = Inr full \<and>
           transmitted_of (map fst df) (incident out) t_ch = Inr tr \<and>
           transmitted out = map to_float64 tr"
proof -
  from assms(1) obtain E rho L where h:
    "required_entries p = Some (E, rho, L)" "0 < E" "0 < rho" "0 < L"
    by (rule valid_required)
  have rho: "rho \<noteq> 0" using h(3) by simp
  let ?time = "map fst df" and ?inc = "clamp_positive (map snd df)"
  let ?t = "char_time E rho L"
  let ?k = "kernel_of ?time ?t"
  from model_1d_result[OF h(1) rho assms(2)] obtain out tr where out:
    "model_1d df p = Inr out" "transmitted_of ?time ?inc ?t = Inr tr"
    "incident out = ?inc" "transmitted out = map to_float64 tr" by blast
  have ne: "?k \<noteq> []" "map Fin ?inc \<noteq> []"
    using assms(2) by (simp_all add: kernel_of_def clamp_positive_def)
  from convolve_full[OF ne] obtain full where full: "convolve ?k (map Fin ?inc) = Inr full"
    by blast
  have "\<forall>i<length df. (0 < snd (df ! i) \<longrightarrow> ?inc ! i = 0) \<and>
                           (snd (df ! i) \<le> 0 \<longrightarrow> ?inc ! i = snd (df ! i))"
    by (simp add: clamp_positive_nth)
  with out full show ?thesis by (auto simp: length_clamp_positive)
qed

theorem sign_clamp_witness:
  "valid_parameters (parameters_of 4 1 2 None) \<and> [(0, - 1), (1, 1 / 2)] \<noteq> [] \<and>
   (\<exists>out t_ch full tr. model_1d [(0, - 1), (1, 1 / 2)] (parameters_of 4 1 2 None) = Inr out \<and>
      length (incident out) = length [(0::real, - 1::real), (1, 1 / 2)] \<and>
      (\<forall>i<length [(0::real, - 1::real), (1, 1 / 2)].
          (0 < snd ([(0::real, - 1::real), (1, 1 / 2)] ! i) \<longrightarrow> incident out ! i = 0) \<and>
          (snd ([(0::real, - 1::real), (1, 1 / 2)] ! i) \<le> 0 \<longrightarrow>
             incident out ! i = snd ([(0::real, - 1::real), (1, 1 / 2)] ! i))) \<and>
      convolve (kernel_of (map fst [(0::real, - 1::real), (1, 1 / 2)]) t_ch)
        (map Fin (incident out)) = Inr full \<and>
      transmitted_of (map fst [(0::real, - 1::real), (1, 1 / 2)]) (incident out) t_ch = Inr tr \<and>
      transmitted out = map to_float64 tr)"
proof -
  have h1: "valid_parameters (parameters_of 4 1 2 None)" by (simp add: valid_parameters_of)
  have h2: "[(0::real, - 1::real), (1, 1 / 2)] \<noteq> []" by simp
  from sign_clamp[OF h1 h2] h1 h2 show ?thesis by blast
qed

text \<open>
  C1 asks reflected, transmitted and incident to add up to zero at every index. For
  scenario A with a time axis that starts at 1 s the program does not deliver that:
  \<open>np.exp\<close> underflows to zero at every sample of the kernel, the sum of the kernel is
  zero, and every transmitted and every reflected sample is \<open>0 / 0\<close>, not a number.
\<close>

theorem late_series_conservation_lost:
  "\<not> isl (model_1d late_scenario_A_incident scenario_A_parameters) \<and>
   transmitted (projr (model_1d late_scenario_A_incident scenario_A_parameters)) = replicate 1000 None \<and>
   reflected (projr (model_1d late_scenario_A_incident scenario_A_parameters)) = replicate 1000 None"
  using late_scenario_A_nan by auto

text \<open>
  C10 asks every transmitted sample to be \<open>\<ge> 0\<close>. On the same record the program does
  not deliver that: the transmitted samples, the first and the last among them, are
  \<open>nan\<close>, which is not \<open>\<ge> 0\<close>.
\<close>

theorem late_series_transmitted_nan:
  "\<not> isl (model_1d late_scenario_A_incident scenario_A_parameters) \<and>
   transmitted (projr (model_1d late_scenario_A_incident scenario_A_parameters)) ! 0 = None \<and>
   transmitted (projr (model_1d late_scenario_A_incident scenario_A_parameters)) ! 999 = None"
proof -
  from late_scenario_A_nan obtain out where
    "model_1d late_scenario_A_incident scenario_A_parameters = Inr out"
    "transmitted out = replicate 1000 None" by blast
  then show ?thesis by simp
qed

section \<open>Errors\<close>

text \<open>
  C8, as the specification states it, asks for an error on a non-positive required entry.
  The program returns a result for a negative junction length.
\<close>

theorem nonpositive_counterexample:
  "\<not> isl (model_1d [(0, - 1), (1, - 1)] (parameters_of 4 1 (- 2) None))"
proof -
  have "required_entries (parameters_of 4 1 (- 2) None) = Some (4, 1, - 2)"
    by (simp add: required_entries_of)
  from model_1d_returns[OF this, of "[(0, - 1), (1, - 1)]"] show ?thesis by auto
qed

text \<open>
  C8, amended. The model reads \<open>elastic_modulus\<close>, \<open>density\<close> and \<open>junction_length\<close> in this
  order and fails at the first defect, for every series, also the empty one on which the
  convolution would fail: with the \<open>KeyError\<close> of the key when \<open>elastic_modulus\<close> or
  \<open>density\<close> (or their table) is absent; with \<open>ZeroDivisionError\<close> when the density is 0;
  with the \<open>KeyError\<close> of the key when the density is not 0 and \<open>junction_length\<close> (or its
  table) is absent. Other values of the three entries, positive or not, give a result on a
  series that is not empty. An absent gage distance is not an error and gives what a gage
  distance of 0 gives.
\<close>

theorem missing_parameter:
  "(p ''material_properties'' = None \<longrightarrow>
      model_1d df p = Inl (KeyError ''material_properties'')) \<and>
   (\<forall>mp. p ''material_properties'' = Some mp \<and> mp ''elastic_modulus'' = None \<longrightarrow>
      model_1d df p = Inl (KeyError ''elastic_modulus'')) \<and>
   (\<forall>mp E. p ''material_properties'' = Some mp \<and> mp ''elastic_modulus'' = Some E \<and>
      mp ''density'' = None \<longrightarrow> model_1d df p = Inl (KeyError ''density'')) \<and>
   (\<forall>mp E. p ''material_properties'' = Some mp \<and> mp ''elastic_modulus'' = Some E \<and>
      mp ''density'' = Some 0 \<longrightarrow> model_1d df p = Inl ZeroDivisionError) \<and>
   (\<forall>mp E rho. p ''material_properties'' = Some mp \<and> mp ''elastic_modulus'' = Some E \<and>
      mp ''density'' = Some rho \<and> rho \<noteq> 0 \<and> p ''geometric_parameters'' = None \<longrightarrow>
      model_1d df p = Inl (KeyError ''geometric_parameters'')) \<and>
   (\<forall>mp E rho gp. p ''material_properties'' = Some mp \<and> mp ''elastic_modulus'' = Some E \<and>
      mp ''density'' = Some rho \<and> rho \<noteq> 0 \<and> p ''geometric_parameters'' = Some gp \<and>
      gp ''junction_length'' = None \<longrightarrow> model_1d df p = Inl (KeyError ''junction_length'')) \<and>
   (\<forall>E rho L. required_entries p = Some (E, rho, L) \<and> rho \<noteq> 0 \<and> df \<noteq> [] \<longrightarrow>
      (\<exists>out. model_1d df p = Inr out)) \<and>
   (\<forall>gp. p ''geometric_parameters'' = Some gp \<and> gp ''gage_distance'' = None \<longrightarrow>
      model_1d df p = model_1d df (p(''geometric_parameters'' \<mapsto> gp(''gage_distance'' \<mapsto> 0))))"
proof (intro conjI allI impI)
  show "model_1d df p = Inl (KeyError ''material_properties'')"
    if "p ''material_properties'' = None"
    using that by (simp add: model_1d_def getitem_def)
  show "model_1d df p = Inl (KeyError ''elastic_modulus'')"
    if "p ''material_properties'' = Some mp \<and> mp ''elastic_modulus'' = None" for mp
    using that by (simp add: model_1d_def getitem_def)
  show "model_1d df p = Inl (KeyError ''density'')"
    if "p ''material_properties'' = Some mp \<and> mp ''elastic_modulus'' = Some E \<and>
      mp ''density'' = None" for mp E
    using that by (simp add: model_1d_def getitem_def)
  show "model_1d df p = Inl ZeroDivisionError"
    if "p ''material_properties'' = Some mp \<and> mp ''elastic_modulus'' = Some E \<and>
      mp ''density'' = Some 0" for mp E
    using that by (simp add: model_1d_def getitem_def)
  show "model_1d df p = Inl (KeyError ''geometric_parameters'')"
    if "p ''material_properties'' = Some mp \<and> mp ''elastic_modulus'' = Some E \<and>
      mp ''density'' = Some rho \<and> rho \<noteq> 0 \<and> p ''geometric_parameters'' = None" for mp E rho
    using that by (simp add: model_1d_def getitem_def)
  show "model_1d df p = Inl (KeyError ''junction_length'')"
    if "p ''material_properties'' = Some mp \<and> mp ''elastic_modulus'' = Some E \<and>
      mp ''density'' = Some rho \<and> rho \<noteq> 0 \<and> p ''geometric_parameters'' = Some gp \<and>
      gp ''junction_length'' = None" for mp E rho gp
    using that by (simp add: model_1d_def getitem_def)
  show "\<exists>out. model_1d df p = Inr out"
    if "required_entries p = Some (E, rho, L) \<and> rho \<noteq> 0 \<and> df \<noteq> []" for E rho L
    using that model_1d_returns by blast
  show "model_1d df p = model_1d df (p(''geometric_parameters'' \<mapsto> gp(''gage_distance'' \<mapsto> 0)))"
    if "p ''geometric_parameters'' = Some gp \<and> gp ''gage_distance'' = None" for gp
    using that model_1d_gage_default by blast
qed

theorem missing_parameter_witness:
  "model_1d [] Map.empty = Inl (KeyError ''material_properties'') \<and>
   model_1d [] [''material_properties'' \<mapsto> [''density'' \<mapsto> 2700]]
     = Inl (KeyError ''elastic_modulus'') \<and>
   model_1d [] [''material_properties'' \<mapsto> [''elastic_modulus'' \<mapsto> 70 * 10 ^ 9],
                ''geometric_parameters'' \<mapsto> [''junction_length'' \<mapsto> 1 / 2]]
     = Inl (KeyError ''density'') \<and>
   model_1d [] [''material_properties'' \<mapsto> [''elastic_modulus'' \<mapsto> 4, ''density'' \<mapsto> 0]]
     = Inl ZeroDivisionError \<and>
   model_1d [] [''material_properties'' \<mapsto> [''elastic_modulus'' \<mapsto> 4, ''density'' \<mapsto> 1]]
     = Inl (KeyError ''geometric_parameters'') \<and>
   model_1d [] [''material_properties'' \<mapsto> [''elastic_modulus'' \<mapsto> 4, ''density'' \<mapsto> 1],
                ''geometric_parameters'' \<mapsto> [''gage_distance'' \<mapsto> 3]]
     = Inl (KeyError ''junction_length'') \<and>
   (\<exists>out. model_1d [(0, - 1), (1, - 1)] (parameters_of 4 1 (- 2) None) = Inr out) \<and>
   model_1d [(0, - 1), (1, - 1)] (parameters_of 4 1 2 None)
     = model_1d [(0, - 1), (1, - 1)] (parameters_of 4 1 2 (Some 0))"
proof -
  let ?df = "[(0, - 1), (1, - 1)] :: (real \<times> real) list"
  have a: "model_1d [] Map.empty = Inl (KeyError ''material_properties'')"
    using missing_parameter[of Map.empty "[]"] by simp
  have b: "model_1d [] [''material_properties'' \<mapsto> [''density'' \<mapsto> 2700]]
     = Inl (KeyError ''elastic_modulus'')"
    using missing_parameter[of "[''material_properties'' \<mapsto> [''density'' \<mapsto> 2700]]" "[]"] by simp
  have c: "model_1d [] [''material_properties'' \<mapsto> [''elastic_modulus'' \<mapsto> 70 * 10 ^ 9],
                ''geometric_parameters'' \<mapsto> [''junction_length'' \<mapsto> 1 / 2]]
     = Inl (KeyError ''density'')"
    using missing_parameter[of "[''material_properties'' \<mapsto> [''elastic_modulus'' \<mapsto> 70 * 10 ^ 9],
                ''geometric_parameters'' \<mapsto> [''junction_length'' \<mapsto> 1 / 2]]" "[]"] by simp
  have d: "model_1d [] [''material_properties'' \<mapsto> [''elastic_modulus'' \<mapsto> 4, ''density'' \<mapsto> 0]]
     = Inl ZeroDivisionError"
    using missing_parameter[of "[''material_properties'' \<mapsto> [''elastic_modulus'' \<mapsto> 4, ''density'' \<mapsto> 0]]" "[]"]
    by simp
  have e: "model_1d [] [''material_properties'' \<mapsto> [''elastic_modulus'' \<mapsto> 4, ''density'' \<mapsto> 1]]
     = Inl (KeyError ''geometric_parameters'')"
    using missing_parameter[of "[''material_properties'' \<mapsto> [''elastic_modulus'' \<mapsto> 4, ''density'' \<mapsto> 1]]" "[]"]
    by simp
  have f: "model_1d [] [''material_properties'' \<mapsto> [''elastic_modulus'' \<mapsto> 4, ''density'' \<mapsto> 1],
                ''geometric_parameters'' \<mapsto> [''gage_distance'' \<mapsto> 3]]
     = Inl (KeyError ''junction_length'')"
    using missing_parameter[of "[''material_properties'' \<mapsto> [''elastic_modulus'' \<mapsto> 4, ''density'' \<mapsto> 1],
                ''geometric_parameters'' \<mapsto> [''gage_distance'' \<mapsto> 3]]" "[]"]
    by simp
  have "required_entries (parameters_of 4 1 (- 2) None) = Some (4, 1, - 2)"
    by (simp add: required_entries_of)
  then have g: "\<exists>out. model_1d ?df (parameters_of 4 1 (- 2) None) = Inr out"
    using missing_parameter[of "parameters_of 4 1 (- 2) None" ?df] by fastforce
  have "(parameters_of 4 1 2 None)(''geometric_parameters'' \<mapsto>
           [''junction_length'' \<mapsto> 2, ''gage_distance'' \<mapsto> 0]) = parameters_of 4 1 2 (Some 0)"
    by (simp add: parameters_of_def)
  moreover have "parameters_of 4 1 2 None ''geometric_parameters'' = Some [''junction_length'' \<mapsto> 2]"
    "[''junction_length'' \<mapsto> (2::real)] ''gage_distance'' = None"
    by (simp_all add: parameters_of_def)
  ultimately have h: "model_1d ?df (parameters_of 4 1 2 None) = model_1d ?df (parameters_of 4 1 2 (Some 0))"
    using missing_parameter[of "parameters_of 4 1 2 None" ?df] by metis
  from a b c d e f g h show ?thesis by blast
qed

section \<open>Delay and time axis\<close>

text \<open>
  C6 asks the delay to be
  \<open>floor (round ((2 * gage_distance + junction_length) / c, 9) / dt) * dt\<close>. For a travel
  time of 260 microseconds and a sample interval of 1 microsecond that is 260 steps. The
  program computes 259: the float64 product \<open>0.00026 * 1e9\<close> is \<open>259999.99999999997\<close>,
  below 260 times \<open>dt * 1e9 = 1000.0\<close>, and the delay is 0.000259 s.
\<close>

theorem delay_step_lost:
  "\<not> isl (model_1d quantization_series quantization_parameters) \<and>
   dt (projr (model_1d quantization_series quantization_parameters)) = Some (float_of (1 / 10 ^ 6)) \<and>
   delay (projr (model_1d quantization_series quantization_parameters))
     = Some (float_of (259 / 10 ^ 6)) \<and>
   \<lfloor>around ((2 * (4 / 10) + 1 / 2) / sqrt (67500000000 / 2700)) 9 / (1 / 10 ^ 6)\<rfloor> = (260::int)"
proof -
  have r: "required_entries quantization_parameters = Some (67500000000, 2700, 1 / 2)"
    by (simp add: quantization_parameters_def required_entries_of)
  have g: "gage_distance_of quantization_parameters = 3602879701896397 / 2 ^ 53"
    by (simp only: quantization_parameters_def gage_distance_of_parameters_of option.case float_of_04)
  have t: "map fst quantization_series = [0, 4722366482869645 / 2 ^ 72, 4722366482869645 / 2 ^ 71]"
    by (simp only: quantization_series_def float_of_1e6 float_of_2e6 list.map fst_conv)
  have ne: "quantization_series \<noteq> []" by (simp add: quantization_series_def)
  from model_1d_result[OF r _ ne] obtain out where out:
    "model_1d quantization_series quantization_parameters = Inr out"
    "dt out = to_float64 (sample_interval (map fst quantization_series))"
    "delay out = to_float64 (propagation_delay (gage_distance_of quantization_parameters) (1 / 2)
        (wave_speed 67500000000 2700) (sample_interval (map fst quantization_series)))"
    by auto
  have d1: "dt out = Some (float_of (1 / 10 ^ 6))"
    unfolding out(2) t quantization_dt float_of_1e6 by (simp add: to_float64_def)
  have d2: "delay out = Some (float_of (259 / 10 ^ 6))"
    unfolding out(3) t g quantization_dt quantization_wave_speed quantization_delay float_of_259e6
    by (simp add: to_float64_def)
  have s: "sqrt 25000000 = 5000" by (rule real_sqrt_unique) simp_all
  have f: "\<lfloor>around ((2 * (4 / 10) + 1 / 2) / sqrt (67500000000 / 2700)) 9 / (1 / 10 ^ 6)\<rfloor> = (260::int)"
    by (simp add: s around_def rint_def)
  from out(1) d1 d2 f show ?thesis by simp
qed




section \<open>Scenario A\<close>

text \<open>
  C2, as the specification states it, lets the transmitted wave of scenario A converge to
  \<open>-1.0\<close>. Its last sample is \<open>+1.0\<close>.
\<close>

theorem scenario_A_counterexample:
  "\<not> isl (model_1d scenario_A_incident scenario_A_parameters) \<and>
   transmitted (projr (model_1d scenario_A_incident scenario_A_parameters)) ! 999 = Some 1"
proof -
  from scenario_A_sums obtain out k
    where out: "model_1d scenario_A_incident scenario_A_parameters = Inr out"
    and pos: "\<forall>m<1000. 0 < k ! m"
    and tr: "transmitted out ! 999 = Some ((\<Sum>m\<le>999. k ! m) / (\<Sum>m<1000. k ! m))"
    by force
  have "0 < (\<Sum>m\<le>999. k ! m)" by (rule partial_sums_pos[OF pos]) simp
  then have "transmitted out ! 999 = Some 1" using tr by (simp add: last_partial_sum)
  then show ?thesis by (simp add: out)
qed

text \<open>
  C2, amended. In scenario A the transmitted wave is positive, grows strictly with the sample
  index and reaches \<open>+1.0\<close> at the last sample; the reflected wave is \<open>1 - transmitted\<close> and
  reaches 0 at the last sample.
\<close>

theorem scenario_A:
  "\<exists>out. model_1d scenario_A_incident scenario_A_parameters = Inr out \<and>
     length (transmitted out) = 1000 \<and>
     (\<forall>i<1000. \<exists>t. transmitted out ! i = Some t \<and> reflected out ! i = Some (1 - t) \<and>
         0 < t \<and> t \<le> 1) \<and>
     (\<forall>i j t u. i < j \<and> j < 1000 \<and> transmitted out ! i = Some t \<and>
         transmitted out ! j = Some u \<longrightarrow> t < u) \<and>
     transmitted out ! 999 = Some 1 \<and> reflected out ! 999 = Some 0"
proof -
  from scenario_A_sums obtain out k
    where out: "model_1d scenario_A_incident scenario_A_parameters = Inr out"
    and pos: "\<forall>m<1000. 0 < k ! m"
    and len: "length (transmitted out) = 1000"
    and tr: "\<And>i. i < 1000 \<Longrightarrow> transmitted out ! i = Some ((\<Sum>m\<le>i. k ! m) / (\<Sum>m<1000. k ! m))"
    and rf: "\<And>i. i < 1000 \<Longrightarrow> reflected out ! i = Some (1 - (\<Sum>m\<le>i. k ! m) / (\<Sum>m<1000. k ! m))"
    by blast
  let ?S = "\<Sum>m<1000. k ! m"
  have S: "0 < ?S" using partial_sums_pos[OF pos, of 999] by (simp add: last_partial_sum)
  have a: "\<exists>t. transmitted out ! i = Some t \<and> reflected out ! i = Some (1 - t) \<and> 0 < t \<and> t \<le> 1"
    if "i < 1000" for i
    using tr[OF that] rf[OF that] partial_sums_pos[OF pos that] partial_sums_le[OF pos that] S
    by simp
  have b: "t < u" if "i < j" "j < 1000" "transmitted out ! i = Some t" "transmitted out ! j = Some u"
    for i j t u
  proof -
    have "i < 1000" using that by simp
    from tr[OF this] tr[OF that(2)] that(3,4)
    have "t = (\<Sum>m\<le>i. k ! m) / ?S" "u = (\<Sum>m\<le>j. k ! m) / ?S" by simp_all
    then show ?thesis
      using partial_sums_mono[OF pos that(1,2)] S by (simp add: divide_strict_right_mono)
  qed
  have c: "transmitted out ! 999 = Some 1" "reflected out ! 999 = Some 0"
    using tr[of 999] rf[of 999] S by (simp_all add: last_partial_sum)
  from out len a b c show ?thesis by blast
qed

theorem scenario_A_witness:
  "\<exists>out t u. model_1d scenario_A_incident scenario_A_parameters = Inr out \<and>
     transmitted out ! 0 = Some t \<and> reflected out ! 0 = Some (1 - t) \<and>
     transmitted out ! 999 = Some u \<and> 0 < t \<and> t < u \<and> u = 1"
proof -
  from scenario_A obtain out where out: "model_1d scenario_A_incident scenario_A_parameters = Inr out"
    and a: "\<forall>i<1000. \<exists>t. transmitted out ! i = Some t \<and> reflected out ! i = Some (1 - t) \<and>
         0 < t \<and> t \<le> 1"
    and b: "\<forall>i j t u. i < j \<and> j < 1000 \<and> transmitted out ! i = Some t \<and>
         transmitted out ! j = Some u \<longrightarrow> t < u"
    and c: "transmitted out ! 999 = Some 1" by blast
  from a obtain t where t: "transmitted out ! 0 = Some t" "reflected out ! 0 = Some (1 - t)" "0 < t"
    by force
  have "(0::nat) < 999 \<and> (999::nat) < 1000 \<and> transmitted out ! 0 = Some t \<and>
         transmitted out ! 999 = Some 1" using t c by simp
  with b have "t < 1" by blast
  with out t c show ?thesis by blast
qed

end
